theory Spec2Isabelle
  imports Main "HOL-Library.Word"
begin

section \<open>The in-memory series of pkg/storage/series.go\<close>

text \<open>
  The development follows \<^verbatim>\<open>pkg/storage/series.go\<close>: the series \<^verbatim>\<open>MemSeries\<close>, its
  constructor, its appender and \<^verbatim>\<open>Append\<close>, and \<^verbatim>\<open>stats\<close>. Go's \<^verbatim>\<open>int64\<close> and
  \<^verbatim>\<open>uint16\<close> are words of that width; \<^verbatim>\<open>int64\<close> is compared signed. A series is passed
  and returned explicitly where Go mutates it through a pointer; the mutex \<^verbatim>\<open>mu\<close> has
  no counterpart, one call runs at a time.
\<close>

type_synonym int64 = "64 word"
type_synonym uint16 = "16 word"
type_synonym uint64 = "64 word"

subsection \<open>Errors\<close>

text \<open>
  The three sentinel errors of the package, an error of the chunk encoders or the series
  tree, \<^verbatim>\<open>fmt.Errorf("...: %w", err)\<close> as \<open>Wrapped\<close>, and Go's run-time panic on an
  index out of range.
\<close>

datatype error =
    ErrOutOfOrderSample
  | ErrPeriodTypeMismatch
  | ErrSampleTypeMismatch
  | CollaboratorError string
  | Wrapped string error
  | IndexOutOfRange

definition validation_error :: "error \<Rightarrow> bool" where
  "validation_error e \<longleftrightarrow>
     e = ErrOutOfOrderSample \<or> e = ErrPeriodTypeMismatch \<or> e = ErrSampleTypeMismatch"

subsection \<open>Value types and profiles\<close>

text \<open>
  Modelled from the spec: \<^verbatim>\<open>ValueType\<close> is declared in a file of the package other than
  series.go. It is the "value-type tag" of section 3, a name and a unit.
\<close>

record ValueType =
  Type :: string
  Unit :: string

text \<open>
  Modelled from the spec: \<^verbatim>\<open>equalValueType\<close> is defined outside series.go. Section 4.2
  rejects a sample whose tag "differs from the fixed one": two tags are equal when their
  names and their units are.
\<close>

definition equalValueType :: "ValueType \<Rightarrow> ValueType \<Rightarrow> bool" where
  "equalValueType a b \<longleftrightarrow> Type a = Type b \<and> Unit a = Unit b"

text \<open>Go's zero value of \<^verbatim>\<open>ValueType\<close>: the tag of a series that has no sample yet.\<close>

definition zeroValueType :: ValueType where
  "zeroValueType = \<lparr>Type = [], Unit = []\<rparr>"

text \<open>
  Modelled from the spec: the profile and its meta data are declared outside series.go.
  By section 4.2 a sample "carries \<open>{periodType, sampleType, timestamp, duration, period,
  valueTree}\<close>"; series.go reads them as \<^verbatim>\<open>p.Meta.PeriodType\<close>, ..., \<^verbatim>\<open>p.Tree\<close>. \<open>'t\<close> is
  the type of a value tree.
\<close>

record InstantProfileMeta =
  PeriodType :: ValueType
  SampleType :: ValueType
  Timestamp :: int64
  Duration :: int64
  Period :: int64

record 't Profile =
  Meta :: InstantProfileMeta
  Tree :: 't

subsection \<open>The series\<close>

text \<open>
  \<^verbatim>\<open>timestampChunk\<close>: a chunk of the timestamp column with its time window.
  \<open>'c\<close> is the type of an encoded chunk (\<^verbatim>\<open>chunkenc.Chunk\<close>).
\<close>

record 'c timestampChunk =
  c_minTime :: int64
  c_maxTime :: int64
  chunk :: 'c

text \<open>
  \<^verbatim>\<open>MemSeries\<close> (lines 31-59). \<open>'k\<close> is \<^verbatim>\<open>ProfileTreeValueNodeKey\<close>, \<open>'st\<close> the state
  of the series tree. A Go map is a list of entries (key, value), in one of the orders in
  which Go may iterate over it. \<open>samplesAppended\<close> is the optional counter: \<open>None\<close> is
  Go's \<^verbatim>\<open>nil\<close>.
\<close>

record ('k, 'c, 'st) MemSeries =
  lset :: "(string \<times> string) list"
  series_id :: uint64
  periodType :: ValueType
  sampleType :: ValueType
  minTime :: int64
  maxTime :: int64
  timestamps :: "'c timestampChunk list"
  durations :: "'c list"
  periods :: "'c list"
  flatValues :: "('k \<times> 'c list) list"
  cumulativeValues :: "('k \<times> 'c list) list"
  labels :: "('k \<times> (string \<times> string list) list) list"
  numLabels :: "('k \<times> (string \<times> int64 list) list) list"
  numUnits :: "('k \<times> (string \<times> string list) list) list"
  seriesTree :: "'st option"
  numSamples :: uint16
  samplesAppended :: "nat option"

subsection \<open>The collaborators\<close>

text \<open>
  Package \<^verbatim>\<open>chunkenc\<close> and the series tree (\<^verbatim>\<open>MemSeriesTree\<close>) are used by series.go and
  are not part of it; every function below takes them as the parameter \<open>env\<close>.
  \<^item> \<open>NewDeltaChunk\<close>, \<open>NewRLEChunk\<close>, \<open>NewXORChunk\<close>: a fresh chunk of each encoding.
  \<^item> \<open>NumSamples c\<close> and \<open>Bytes c\<close>: the sample count and the serialized bytes of a chunk.
  \<^item> \<open>ChunkAppender c\<close>: the outcome of \<^verbatim>\<open>c.Appender()\<close>; \<open>None\<close> when it produces a
    write cursor, the encoder's error otherwise.
  \<^item> \<open>AppendAt c slot v\<close>: the chunk \<open>c\<close> after \<^verbatim>\<open>AppendAt(slot, v)\<close> on a cursor bound
    to it.
  \<^item> \<open>NewTree\<close>: the tree of \<^verbatim>\<open>&MemSeriesTree{s: s}\<close>.
  \<^item> \<open>Insert slot tree s\<close>: \<^verbatim>\<open>s.seriesTree.Insert(slot, tree)\<close>, which works on the
    series it points back to; it returns its error and the series as it leaves it.
\<close>

record ('k, 'c, 'st, 't) collaborators =
  NewDeltaChunk :: 'c
  NewRLEChunk :: 'c
  NewXORChunk :: 'c
  NumSamples :: "'c \<Rightarrow> int"
  Bytes :: "'c \<Rightarrow> 8 word list"
  ChunkAppender :: "'c \<Rightarrow> error option"
  AppendAt :: "'c \<Rightarrow> uint16 \<Rightarrow> int64 \<Rightarrow> 'c"
  NewTree :: 'st
  Insert :: "uint16 \<Rightarrow> 't \<Rightarrow> ('k, 'c, 'st) MemSeries \<Rightarrow> error option \<times> ('k, 'c, 'st) MemSeries"

subsection \<open>NewMemSeries, Labels, Appender\<close>

definition MaxInt64 :: int64 where
  "MaxInt64 = 0x7FFFFFFFFFFFFFFF"

definition MinInt64 :: int64 where
  "MinInt64 = 0x8000000000000000"

text \<open>
  \<^verbatim>\<open>NewMemSeries\<close> (lines 61-82). The fields the literal does not name have Go's zero
  value: the two tags, \<open>minTime\<close>, \<open>maxTime\<close>, \<open>numSamples\<close> and the counter.
\<close>

definition NewMemSeries ::
  "('k, 'c, 'st, 't) collaborators \<Rightarrow> (string \<times> string) list \<Rightarrow> uint64 \<Rightarrow> ('k, 'c, 'st) MemSeries" where
  "NewMemSeries env ls i =
     \<lparr>lset = ls,
      series_id = i,
      periodType = zeroValueType,
      sampleType = zeroValueType,
      minTime = 0,
      maxTime = 0,
      timestamps = [\<lparr>c_minTime = MaxInt64, c_maxTime = MinInt64, chunk = NewDeltaChunk env\<rparr>],
      durations = [NewRLEChunk env],
      periods = [NewRLEChunk env],
      flatValues = [],
      cumulativeValues = [],
      labels = [],
      numLabels = [],
      numUnits = [],
      seriesTree = Some (NewTree env),
      numSamples = 0,
      samplesAppended = None\<rparr>"

definition Labels :: "('k, 'c, 'st) MemSeries \<Rightarrow> (string \<times> string) list" where
  "Labels s = lset s"

text \<open>
  \<^verbatim>\<open>MemSeriesAppender\<close> (lines 161-166). A write cursor (\<^verbatim>\<open>chunkenc.Appender\<close>) stays bound
  to the chunk it was made for; it is the ordinal of that chunk in its column.
\<close>

record ('k, 'c, 'st) MemSeriesAppender =
  a_s :: "('k, 'c, 'st) MemSeries"
  a_timestamps :: nat
  a_duration :: nat
  a_periods :: nat

text \<open>
  \<^verbatim>\<open>Appender\<close> (lines 88-108). All three chunks are taken at the index
  \<^verbatim>\<open>len(s.timestamps)-1\<close>.
\<close>

definition Appender ::
  "('k, 'c, 'st, 't) collaborators \<Rightarrow> ('k, 'c, 'st) MemSeries \<Rightarrow> error + ('k, 'c, 'st) MemSeriesAppender" where
  "Appender env s =
     (if timestamps s = [] then Inl IndexOutOfRange
      else
        let i = length (timestamps s) - 1 in
        (case ChunkAppender env (chunk (timestamps s ! i)) of
           Some e \<Rightarrow> Inl e
         | None \<Rightarrow>
             if length (durations s) \<le> i then Inl IndexOutOfRange
             else
               (case ChunkAppender env (durations s ! i) of
                  Some e \<Rightarrow> Inl e
                | None \<Rightarrow>
                    if length (periods s) \<le> i then Inl IndexOutOfRange
                    else
                      (case ChunkAppender env (periods s ! i) of
                         Some e \<Rightarrow> Inl e
                       | None \<Rightarrow>
                           Inr \<lparr>a_s = s, a_timestamps = i, a_duration = i, a_periods = i\<rparr>))))"

subsection \<open>appendTree and stats\<close>

definition samplesPerChunk :: nat where
  "samplesPerChunk = 120"

text \<open>\<^verbatim>\<open>appendTree\<close> (lines 110-116).\<close>

definition appendTree ::
  "('k, 'c, 'st, 't) collaborators \<Rightarrow> ('k, 'c, 'st) MemSeries \<Rightarrow> 't \<Rightarrow>
     error option \<times> ('k, 'c, 'st) MemSeries" where
  "appendTree env s profileTree =
     (let s1 = (if seriesTree s = None then s\<lparr>seriesTree := Some (NewTree env)\<rparr> else s)
      in Insert env (numSamples s1 mod of_nat samplesPerChunk) profileTree s1)"

record MemSeriesValueStats =
  v_samples :: int
  v_bytes :: int

record MemSeriesStats =
  samples :: uint16
  Cumulatives :: "MemSeriesValueStats list"
  Flat :: "MemSeriesValueStats list"

text \<open>
  The two loops of \<^verbatim>\<open>stats\<close> (lines 136-152): over the entries of a map, and over the
  chunks of each entry, appending one element per chunk.
\<close>

definition chunkStats ::
  "('k, 'c, 'st, 't) collaborators \<Rightarrow> ('k \<times> 'c list) list \<Rightarrow> MemSeriesValueStats list" where
  "chunkStats env m =
     fold (\<lambda>(k, chunks) acc.
             fold (\<lambda>c acc'. acc' @ [\<lparr>v_samples = NumSamples env c,
                                      v_bytes = int (length (Bytes env c))\<rparr>]) chunks acc)
          m []"

text \<open>
  \<^verbatim>\<open>stats\<close> (lines 129-159) has a pointer receiver: the result is the snapshot together
  with the series as the call leaves it.
\<close>

definition stats ::
  "('k, 'c, 'st, 't) collaborators \<Rightarrow> ('k, 'c, 'st) MemSeries \<Rightarrow>
     MemSeriesStats \<times> ('k, 'c, 'st) MemSeries" where
  "stats env s =
     (let flat = chunkStats env (flatValues s);
          cumulative = chunkStats env (cumulativeValues s)
      in (\<lparr>samples = numSamples s, Cumulatives = cumulative, Flat = flat\<rparr>, s))"

subsection \<open>Append\<close>

text \<open>Lines 171-174: the first sample fixes the two tags.\<close>

definition fixTypes :: "('k, 'c, 'st) MemSeries \<Rightarrow> 't Profile \<Rightarrow> ('k, 'c, 'st) MemSeries" where
  "fixTypes s p =
     (if numSamples s = 0
      then s\<lparr>periodType := PeriodType (Meta p), sampleType := SampleType (Meta p)\<rparr>
      else s)"

text \<open>
  Lines 197-235, the roll: one fresh chunk for every key of the two value maps and for
  the three fixed columns, whose cursors are bound to the new chunks. A cursor that cannot
  be made ends the call where it stands.
\<close>

definition rollChunks ::
  "('k, 'c, 'st, 't) collaborators \<Rightarrow> ('k, 'c, 'st) MemSeriesAppender \<Rightarrow> int64 \<Rightarrow>
     error option \<times> ('k, 'c, 'st) MemSeriesAppender" where
  "rollChunks env a timestamp =
     (let s0 = a_s a;
          s1 = s0\<lparr>cumulativeValues :=
                    map (\<lambda>(k, cs). (k, cs @ [NewXORChunk env])) (cumulativeValues s0)\<rparr>;
          s2 = s1\<lparr>flatValues := map (\<lambda>(k, cs). (k, cs @ [NewXORChunk env])) (flatValues s1)\<rparr>;
          s3 = s2\<lparr>timestamps := timestamps s2 @
                    [\<lparr>c_minTime = timestamp, c_maxTime = timestamp, chunk = NewDeltaChunk env\<rparr>]\<rparr>
      in (case ChunkAppender env (chunk (last (timestamps s3))) of
            Some e \<Rightarrow> (Some (Wrapped ''failed to add the next timestamp chunk'' e), a\<lparr>a_s := s3\<rparr>)
          | None \<Rightarrow>
              let a1 = a\<lparr>a_s := s3, a_timestamps := length (timestamps s3) - 1\<rparr>;
                  s4 = s3\<lparr>durations := durations s3 @ [NewRLEChunk env]\<rparr>
              in (case ChunkAppender env (last (durations s4)) of
                    Some e \<Rightarrow>
                      (Some (Wrapped ''failed to add the next durations chunk'' e), a1\<lparr>a_s := s4\<rparr>)
                  | None \<Rightarrow>
                      let a2 = a1\<lparr>a_s := s4, a_duration := length (durations s4) - 1\<rparr>;
                          s5 = s4\<lparr>periods := periods s4 @ [NewRLEChunk env]\<rparr>
                      in (case ChunkAppender env (last (periods s5)) of
                            Some e \<Rightarrow>
                              (Some (Wrapped ''failed to add the next periods chunk'' e),
                               a2\<lparr>a_s := s5\<rparr>)
                          | None \<Rightarrow>
                              (None, a2\<lparr>a_s := s5, a_periods := length (periods s5) - 1\<rparr>)))))"

text \<open>
  Lines 242-244: the three positional writes through the cursors of the appender \<open>a\<close>,
  into the series \<open>s\<close> as the tree insertion left it.
\<close>

definition writeSample ::
  "('k, 'c, 'st, 't) collaborators \<Rightarrow> ('k, 'c, 'st) MemSeriesAppender \<Rightarrow>
     ('k, 'c, 'st) MemSeries \<Rightarrow> 't Profile \<Rightarrow> ('k, 'c, 'st) MemSeries" where
  "writeSample env a s p =
     (let slot = numSamples s mod of_nat samplesPerChunk;
          it = a_timestamps a; id' = a_duration a; ip = a_periods a;
          s1 = s\<lparr>timestamps := (timestamps s)
                  [it := (timestamps s ! it)
                     \<lparr>chunk := AppendAt env (chunk (timestamps s ! it)) slot (Timestamp (Meta p))\<rparr>]\<rparr>;
          s2 = s1\<lparr>durations := (durations s1)
                  [id' := AppendAt env (durations s1 ! id') slot (Duration (Meta p))]\<rparr>
      in s2\<lparr>periods := (periods s2)
                  [ip := AppendAt env (periods s2 ! ip) slot (Period (Meta p))]\<rparr>)"

text \<open>
  Lines 246-265: the window of the tail timestamp chunk, \<open>minTime\<close>, \<open>maxTime\<close>,
  \<open>numSamples\<close> and the counter. The caller has checked that \<open>timestamps s\<close> is not empty.
\<close>

definition bookkeeping :: "('k, 'c, 'st) MemSeries \<Rightarrow> int64 \<Rightarrow> ('k, 'c, 'st) MemSeries" where
  "bookkeeping s timestamp =
     (let n = length (timestamps s) - 1;
          t0 = timestamps s ! n;
          t1 = (if timestamp <s c_minTime t0 then t0\<lparr>c_minTime := timestamp\<rparr> else t0);
          t2 = (if c_maxTime t1 <s timestamp then t1\<lparr>c_maxTime := timestamp\<rparr> else t1);
          s1 = s\<lparr>timestamps := (timestamps s)[n := t2]\<rparr>;
          s2 = (if minTime s1 = 0 \<and> timestamp \<noteq> 0 then s1\<lparr>minTime := timestamp\<rparr> else s1);
          s3 = s2\<lparr>maxTime := timestamp\<rparr>;
          s4 = s3\<lparr>numSamples := numSamples s3 + 1\<rparr>
      in s4\<lparr>samplesAppended := map_option Suc (samplesAppended s4)\<rparr>)"

text \<open>
  \<^verbatim>\<open>Append\<close> (lines 170-267). The result is the error returned (\<open>None\<close> for \<^verbatim>\<open>nil\<close>) and
  the appender, with its series, as the call leaves them.
\<close>

definition Append ::
  "('k, 'c, 'st, 't) collaborators \<Rightarrow> ('k, 'c, 'st) MemSeriesAppender \<Rightarrow> 't Profile \<Rightarrow>
     error option \<times> ('k, 'c, 'st) MemSeriesAppender" where
  "Append env a p =
     (let a1 = a\<lparr>a_s := fixTypes (a_s a) p\<rparr> in
      if \<not> equalValueType (periodType (a_s a1)) (PeriodType (Meta p))
      then (Some ErrPeriodTypeMismatch, a1)
      else if \<not> equalValueType (sampleType (a_s a1)) (SampleType (Meta p))
      then (Some ErrSampleTypeMismatch, a1)
      else
        let timestamp = Timestamp (Meta p) in
        if timestamp \<le>s maxTime (a_s a1) then (Some ErrOutOfOrderSample, a1)
        else if timestamps (a_s a1) = [] then (Some IndexOutOfRange, a1)
        else
          let newChunks =
                (int samplesPerChunk \<le> NumSamples env (chunk (last (timestamps (a_s a1)))))
          in case (if newChunks then rollChunks env a1 timestamp else (None, a1)) of
               (Some e, a2) \<Rightarrow> (Some e, a2)
             | (None, a2) \<Rightarrow>
                 (case appendTree env (a_s a2) (Tree p) of
                    (Some e, s3) \<Rightarrow> (Some e, a2\<lparr>a_s := s3\<rparr>)
                  | (None, s3) \<Rightarrow>
                      let s4 = writeSample env a2 s3 p in
                      if timestamps s4 = [] then (Some IndexOutOfRange, a2\<lparr>a_s := s4\<rparr>)
                      else (None, a2\<lparr>a_s := bookkeeping s4 timestamp\<rparr>)))"

text \<open>A sequence of calls of \<open>Append\<close> on one appender: the errors returned, in order, and
  the appender after the last call.\<close>

fun appendAll ::
  "('k, 'c, 'st, 't) collaborators \<Rightarrow> ('k, 'c, 'st) MemSeriesAppender \<Rightarrow> 't Profile list \<Rightarrow>
     error option list \<times> ('k, 'c, 'st) MemSeriesAppender" where
  "appendAll env a [] = ([], a)"
| "appendAll env a (p # ps) =
     (case Append env a p of
        (r, a') \<Rightarrow> (case appendAll env a' ps of (rs, a'') \<Rightarrow> (r # rs, a'')))"

definition accepted :: "error option list \<Rightarrow> nat" where
  "accepted rs = length (filter (\<lambda>r. r = None) rs)"

subsection \<open>What series.go relies on in its collaborators\<close>

text \<open>
  Modelled from the spec: the contract of the chunk encoders (sections 4.3 and 6), which
  are "black-box encoders" there. A fresh chunk holds no sample, and a cursor writes "at
  an explicit slot index, always the next free slot in the tail chunk": such a write adds
  one sample. Nothing is said, and nothing is assumed, of a write at another slot.
\<close>

definition chunk_contract :: "('k, 'c, 'st, 't) collaborators \<Rightarrow> bool" where
  "chunk_contract env \<longleftrightarrow>
     NumSamples env (NewDeltaChunk env) = 0 \<and>
     NumSamples env (NewRLEChunk env) = 0 \<and>
     NumSamples env (NewXORChunk env) = 0 \<and>
     (\<forall>c slot v. uint slot = NumSamples env c \<longrightarrow>
        NumSamples env (AppendAt env c slot v) = NumSamples env c + 1)"

text \<open>
  Modelled from the spec: what \<open>Insert\<close> leaves alone. By sections 4.2 and 4.4 the
  series tree works on the per-key maps (\<open>flatValues\<close>, \<open>cumulativeValues\<close>, the three
  label maps) and on itself; the other fields of the series are as it found them.
\<close>

definition same_frame :: "('k, 'c, 'st) MemSeries \<Rightarrow> ('k, 'c, 'st) MemSeries \<Rightarrow> bool" where
  "same_frame s s' \<longleftrightarrow>
     lset s' = lset s \<and> series_id s' = series_id s \<and>
     periodType s' = periodType s \<and> sampleType s' = sampleType s \<and>
     minTime s' = minTime s \<and> maxTime s' = maxTime s \<and>
     timestamps s' = timestamps s \<and> durations s' = durations s \<and> periods s' = periods s \<and>
     numSamples s' = numSamples s \<and> samplesAppended s' = samplesAppended s"

text \<open>
  Modelled from the spec: the chunk counts of a per-key map after \<open>Insert\<close>. A column
  either has the chunk count of a column that its key had before, or it was created, and
  "a newly created per-key column must be created with a chunk count matching the series'
  current roll count" (section 4.2): \<open>n\<close>, the number of chunks of the timestamp column.
\<close>

definition column_rule :: "nat \<Rightarrow> ('k \<times> 'c list) list \<Rightarrow> ('k \<times> 'c list) list \<Rightarrow> bool" where
  "column_rule n old new \<longleftrightarrow>
     (\<forall>(k, cs) \<in> set new.
        length cs = n \<or> (\<exists>cs0. (k, cs0) \<in> set old \<and> length cs0 = length cs))"

text \<open>
  Modelled from the spec: the contract of the series tree's \<open>Insert\<close> (sections 4.2, 4.4
  and 6): whatever it returns it keeps the frame; when it returns no error the two value
  maps follow the rule above; and an error it returns is its own, not one of the three
  validation errors of \<open>Append\<close>.
\<close>

definition tree_contract :: "('k, 'c, 'st, 't) collaborators \<Rightarrow> bool" where
  "tree_contract env \<longleftrightarrow>
     (\<forall>slot t s e s'. Insert env slot t s = (e, s') \<longrightarrow>
        same_frame s s' \<and>
        (case e of
           Some err \<Rightarrow> \<not> validation_error err
         | None \<Rightarrow>
             column_rule (length (timestamps s)) (flatValues s) (flatValues s') \<and>
             column_rule (length (timestamps s)) (cumulativeValues s) (cumulativeValues s')))"

text \<open>
  Modelled from the spec: a per-key map that has lost no column. Every key of the map
  before is a key of the map after, and its column has as many chunks as it had.
\<close>

definition keeps_columns :: "('k \<times> 'c list) list \<Rightarrow> ('k \<times> 'c list) list \<Rightarrow> bool" where
  "keeps_columns old new \<longleftrightarrow>
     (\<forall>(k, cs) \<in> set old. \<exists>cs'. (k, cs') \<in> set new \<and> length cs' = length cs)"

text \<open>
  Modelled from the spec: \<open>Insert\<close> removes no per-key column. A key, once known, stays
  known ("every currently-known key" is rolled, and the spec sees "no visible pruning
  mechanism in this core", sections 4.2 and 9), and the insertion writes into the tail
  chunk of a column or creates a column: it leaves the chunk count of the columns it
  finds. This is asked of \<open>Insert\<close> only where a property says so.
\<close>

definition tree_keeps_keys :: "('k, 'c, 'st, 't) collaborators \<Rightarrow> bool" where
  "tree_keeps_keys env \<longleftrightarrow>
     (\<forall>slot t s s'. Insert env slot t s = (None, s') \<longrightarrow>
        keeps_columns (flatValues s) (flatValues s') \<and>
        keeps_columns (cumulativeValues s) (cumulativeValues s'))"

subsection \<open>One implementation of the collaborators\<close>

text \<open>
  The examples below run \<open>Append\<close> with the following collaborators, which meet the two
  contracts.
\<close>

text \<open>
  Modelled from the spec: an uncompressed chunk, for all three encodings: the list of the
  values written to it, one per slot. A fresh chunk is the empty list, and the sample
  count of a chunk is the length of the list.
\<close>

type_synonym rawChunk = "int64 list"

text \<open>
  Modelled from the spec: the positional write of a cursor bound to the chunk \<open>c\<close>. A
  write at the next free slot appends the value (sections 4.3 and 6). A write at a slot
  further on first fills the slots in between with zeros: they stand for the samples in
  which the key of a per-key column had no value (section 4.2, step 3). A cursor never
  overwrites: a write at a slot that is taken appends as well.
\<close>

definition raw_AppendAt :: "rawChunk \<Rightarrow> uint16 \<Rightarrow> int64 \<Rightarrow> rawChunk" where
  "raw_AppendAt c slot v = c @ replicate (unat slot - length c) 0 @ [v]"

text \<open>
  Modelled from the spec: the serialized form of a chunk, of which the spec asks the
  size only: the sample count in two bytes, then eight bytes per value, big-endian.
\<close>

definition raw_Bytes :: "rawChunk \<Rightarrow> 8 word list" where
  "raw_Bytes c =
     [ucast (drop_bit 8 (word_of_nat (length c) :: uint16)), word_of_nat (length c)] @
     concat (map (\<lambda>v. map (\<lambda>i. ucast (drop_bit (8 * i) v)) [7, 6, 5, 4, 3, 2, 1, 0]) c)"

text \<open>
  Modelled from the spec: a value tree, as the list of its nodes: each node has its
  stack-node key, its flat value and its cumulative value.
\<close>

type_synonym 'k rawTree = "('k \<times> int64 \<times> int64) list"

text \<open>Go's assignment \<^verbatim>\<open>m[k] = v\<close> on a map given by its entries.\<close>

fun setColumn :: "'k \<Rightarrow> 'v \<Rightarrow> ('k \<times> 'v) list \<Rightarrow> ('k \<times> 'v) list" where
  "setColumn k v [] = [(k, v)]"
| "setColumn k v ((k', v') # m) = (if k' = k then (k, v) # m else (k', v') # setColumn k v m)"

text \<open>
  Modelled from the spec: the insertion of one value into a per-key map (section 4.2). A
  key seen for the first time gets a column of \<open>n\<close> fresh chunks, \<open>n\<close> being the number of
  chunks of the timestamp column; the value is written at the given slot of the tail chunk
  of the column of its key. (A column without a chunk gets no write; the timestamp column
  of a series is never empty.)
\<close>

definition insertValue ::
  "nat \<Rightarrow> uint16 \<Rightarrow> 'k \<Rightarrow> int64 \<Rightarrow> ('k \<times> rawChunk list) list \<Rightarrow> ('k \<times> rawChunk list) list" where
  "insertValue n slot k v m =
     (let cs = (case map_of m k of None \<Rightarrow> replicate n [] | Some cs0 \<Rightarrow> cs0)
      in if cs = [] then setColumn k cs m
         else setColumn k (butlast cs @ [raw_AppendAt (last cs) slot v]) m)"

text \<open>
  Modelled from the spec: the insertion of one node of a value tree: its flat value into
  \<open>flatValues\<close>, its cumulative value into \<open>cumulativeValues\<close>, both under the key of the
  node.
\<close>

definition insertNode ::
  "uint16 \<Rightarrow> 'k \<times> int64 \<times> int64 \<Rightarrow> ('k, rawChunk, unit) MemSeries \<Rightarrow>
     ('k, rawChunk, unit) MemSeries" where
  "insertNode slot =
     (\<lambda>(k, flat, cumulative) s.
        s\<lparr>flatValues := insertValue (length (timestamps s)) slot k flat (flatValues s),
          cumulativeValues :=
            insertValue (length (timestamps s)) slot k cumulative (cumulativeValues s)\<rparr>)"

text \<open>
  Modelled from the spec: \<^verbatim>\<open>MemSeriesTree.Insert\<close>, of which the spec fixes the interface
  (section 6: "an insertion operation taking a slot index and a value tree"): every node
  of the tree is inserted at the slot, in order; no error is returned. The tree keeps no
  state of its own here.
\<close>

definition raw_Insert ::
  "uint16 \<Rightarrow> 'k rawTree \<Rightarrow> ('k, rawChunk, unit) MemSeries \<Rightarrow>
     error option \<times> ('k, rawChunk, unit) MemSeries" where
  "raw_Insert slot tree s = (None, fold (insertNode slot) tree s)"

text \<open>
  Modelled from the spec: the collaborators made of the definitions above, with
  stack-node keys that are strings. Every chunk produces its cursor.
\<close>

definition raw_env :: "(string, rawChunk, unit, string rawTree) collaborators" where
  "raw_env =
     \<lparr>NewDeltaChunk = [], NewRLEChunk = [], NewXORChunk = [],
      NumSamples = (\<lambda>c. int (length c)),
      Bytes = raw_Bytes,
      ChunkAppender = (\<lambda>c. None),
      AppendAt = raw_AppendAt,
      NewTree = (),
      Insert = raw_Insert\<rparr>"

subsection \<open>Samples and series of the examples\<close>

text \<open>Two value types, a sample with given tags, timestamp and tree, and a fresh series with
  its appender.\<close>

definition cpu :: ValueType where
  "cpu = \<lparr>Type = ''cpu'', Unit = ''nanoseconds''\<rparr>"

definition alloc :: ValueType where
  "alloc = \<lparr>Type = ''alloc_space'', Unit = ''bytes''\<rparr>"

definition sample ::
  "ValueType \<Rightarrow> ValueType \<Rightarrow> int64 \<Rightarrow> 'k rawTree \<Rightarrow> 'k rawTree Profile" where
  "sample pty sty t tree =
     \<lparr>Meta = \<lparr>PeriodType = pty, SampleType = sty, Timestamp = t, Duration = 10, Period = 100\<rparr>,
      Tree = tree\<rparr>"

definition series0 :: "(string, rawChunk, unit) MemSeries" where
  "series0 = NewMemSeries raw_env [(''job'', ''a'')] 1"

definition appender0 :: "(string, rawChunk, unit) MemSeriesAppender" where
  "appender0 = \<lparr>a_s = series0, a_timestamps = 0, a_duration = 0, a_periods = 0\<rparr>"

text \<open>The appender after one accepted sample at time 100 with the stack node \<open>main\<close>, and
  after a second one at time 200 with the stack node \<open>f\<close>.\<close>

definition appender1 :: "(string, rawChunk, unit) MemSeriesAppender" where
  "appender1 =
     \<lparr>a_s = series0
        \<lparr>periodType := cpu, sampleType := cpu, minTime := 100, maxTime := 100,
         timestamps := [\<lparr>c_minTime = 100, c_maxTime = 100, chunk = [100]\<rparr>],
         durations := [[10]], periods := [[100]],
         flatValues := [(''main'', [[1]])], cumulativeValues := [(''main'', [[2]])],
         numSamples := 1\<rparr>,
      a_timestamps = 0, a_duration = 0, a_periods = 0\<rparr>"

definition appender2 :: "(string, rawChunk, unit) MemSeriesAppender" where
  "appender2 =
     \<lparr>a_s = series0
        \<lparr>periodType := cpu, sampleType := cpu, minTime := 100, maxTime := 200,
         timestamps := [\<lparr>c_minTime = 100, c_maxTime = 200, chunk = [100, 200]\<rparr>],
         durations := [[10, 10]], periods := [[100, 100]],
         flatValues := [(''main'', [[1]]), (''f'', [[0, 3]])],
         cumulativeValues := [(''main'', [[2]]), (''f'', [[0, 4]])],
         numSamples := 2\<rparr>,
      a_timestamps = 0, a_duration = 0, a_periods = 0\<rparr>"

text \<open>Scenario A of the spec: an accepted sample, one out of order, one of another sample
  type, and an accepted one.\<close>

definition scenarioA :: "string rawTree Profile list" where
  "scenarioA =
     [sample cpu cpu 100 [(''main'', 1, 2)], sample cpu cpu 50 [(''main'', 3, 4)],
      sample cpu alloc 200 [], sample cpu cpu 200 [(''f'', 3, 4)]]"

text \<open>The appender after a third accepted sample, at time 300 with an empty tree.\<close>

definition appender3 :: "(string, rawChunk, unit) MemSeriesAppender" where
  "appender3 =
     \<lparr>a_s = series0
        \<lparr>periodType := cpu, sampleType := cpu, minTime := 100, maxTime := 300,
         timestamps := [\<lparr>c_minTime = 100, c_maxTime = 300, chunk = [100, 200, 300]\<rparr>],
         durations := [[10, 10, 10]], periods := [[100, 100, 100]],
         flatValues := [(''main'', [[1]]), (''f'', [[0, 3]])],
         cumulativeValues := [(''main'', [[2]]), (''f'', [[0, 4]])],
         numSamples := 3\<rparr>,
      a_timestamps = 0, a_duration = 0, a_periods = 0\<rparr>"

text \<open>The samples at the times \<open>m\<close>, \<open>m + 1\<close>, ..., \<open>n\<close>, with one tag and empty trees.\<close>

definition ramp :: "nat \<Rightarrow> nat \<Rightarrow> string rawTree Profile list" where
  "ramp m n = map (\<lambda>k. sample cpu cpu (of_nat k) []) [m..<Suc n]"

subsection \<open>Notions used in the properties\<close>

text \<open>The chunk count of every column: the three fixed columns, then each per-key column
  of the flat and of the cumulative map.\<close>

definition chunkCounts ::
  "('k, 'c, 'st) MemSeries \<Rightarrow> nat \<times> nat \<times> nat \<times> ('k \<times> nat) list \<times> ('k \<times> nat) list" where
  "chunkCounts s =
     (length (timestamps s), length (durations s), length (periods s),
      map (\<lambda>(k, cs). (k, length cs)) (flatValues s),
      map (\<lambda>(k, cs). (k, length cs)) (cumulativeValues s))"

text \<open>One entry of the snapshot of \<open>stats\<close>: the sample count and the byte size of a chunk.\<close>

definition chunkStat :: "('k, 'c, 'st, 't) collaborators \<Rightarrow> 'c \<Rightarrow> MemSeriesValueStats" where
  "chunkStat env c = \<lparr>v_samples = NumSamples env c, v_bytes = int (length (Bytes env c))\<rparr>"

text \<open>Invariant 1 of the spec in terms of chunk counts: the three fixed columns and every
  per-key column of the two value maps have as many chunks as the timestamp column.\<close>

definition parallel :: "('k, 'c, 'st) MemSeries \<Rightarrow> bool" where
  "parallel s \<longleftrightarrow>
     length (durations s) = length (timestamps s) \<and>
     length (periods s) = length (timestamps s) \<and>
     (\<forall>(k, cs) \<in> set (flatValues s). length cs = length (timestamps s)) \<and>
     (\<forall>(k, cs) \<in> set (cumulativeValues s). length cs = length (timestamps s))"

text \<open>The decision of line 192, and the series after a roll in which every cursor was made.\<close>

definition tailFull :: "('k, 'c, 'st, 't) collaborators \<Rightarrow> ('k, 'c, 'st) MemSeries \<Rightarrow> bool" where
  "tailFull env s \<longleftrightarrow> int samplesPerChunk \<le> NumSamples env (chunk (last (timestamps s)))"

definition rolled ::
  "('k, 'c, 'st, 't) collaborators \<Rightarrow> ('k, 'c, 'st) MemSeries \<Rightarrow> int64 \<Rightarrow> ('k, 'c, 'st) MemSeries" where
  "rolled env s t =
     s\<lparr>cumulativeValues := map (\<lambda>(k, cs). (k, cs @ [NewXORChunk env])) (cumulativeValues s),
       flatValues := map (\<lambda>(k, cs). (k, cs @ [NewXORChunk env])) (flatValues s),
       timestamps := timestamps s @ [\<lparr>c_minTime = t, c_maxTime = t, chunk = NewDeltaChunk env\<rparr>],
       durations := durations s @ [NewRLEChunk env],
       periods := periods s @ [NewRLEChunk env]\<rparr>"

text \<open>The samples of a sequence of calls that were accepted, in order, and the timestamp
  of the first of a list of samples whose timestamp is not zero (zero when there is
  none).\<close>

definition acceptedSamples :: "error option list \<Rightarrow> 't Profile list \<Rightarrow> 't Profile list" where
  "acceptedSamples rs ps = map snd (filter (\<lambda>(r, p). r = None) (zip rs ps))"

definition firstNonzero :: "'t Profile list \<Rightarrow> int64" where
  "firstNonzero ps =
     (case filter (\<lambda>p. Timestamp (Meta p) \<noteq> 0) ps of [] \<Rightarrow> 0 | p # _ \<Rightarrow> Timestamp (Meta p))"

text \<open>Collaborators that never fail: every cursor is made and \<open>Insert\<close> returns no error.\<close>

definition reliable :: "('k, 'c, 'st, 't) collaborators \<Rightarrow> bool" where
  "reliable env \<longleftrightarrow>
     (\<forall>c. ChunkAppender env c = None) \<and> (\<forall>slot t s. fst (Insert env slot t s) = None)"

text \<open>A sequence of results without an error of the collaborators: each call was accepted
  or rejected by validation.\<close>

definition validation_only :: "error option list \<Rightarrow> bool" where
  "validation_only rs \<longleftrightarrow>
     (\<forall>r \<in> set rs. case r of None \<Rightarrow> True | Some e \<Rightarrow> validation_error e)"

text \<open>The cursors of an appender are bound to the tail chunks of the three fixed columns.\<close>

definition bound :: "('k, 'c, 'st) MemSeriesAppender \<Rightarrow> bool" where
  "bound a \<longleftrightarrow>
     a_timestamps a = length (timestamps (a_s a)) - 1 \<and>
     a_duration a = length (durations (a_s a)) - 1 \<and>
     a_periods a = length (periods (a_s a)) - 1"

text \<open>The chunks are in step with a count \<open>n\<close> of samples: the fixed columns have
  \<open>(n - 1) div 120 + 1\<close> chunks, and their tail chunks hold \<open>tailCount n\<close> samples.\<close>

definition tailCount :: "nat \<Rightarrow> nat" where
  "tailCount n = (if n = 0 then 0 else (n - 1) mod samplesPerChunk + 1)"

definition in_step ::
  "('k, 'c, 'st, 't) collaborators \<Rightarrow> ('k, 'c, 'st) MemSeries \<Rightarrow> nat \<Rightarrow> bool" where
  "in_step env s n \<longleftrightarrow>
     length (timestamps s) = (n - 1) div samplesPerChunk + 1 \<and>
     NumSamples env (chunk (last (timestamps s))) = int (tailCount n) \<and>
     NumSamples env (last (durations s)) = int (tailCount n) \<and>
     NumSamples env (last (periods s)) = int (tailCount n)"

text \<open>What holds of an appender after \<open>n\<close> accepted samples, while no collaborator has
  failed: the cursors are bound to the tails, the columns are parallel, the chunks are in
  step with \<open>n\<close>, and the 16-bit counter is \<open>n\<close> modulo 65536.\<close>

definition healthy ::
  "('k, 'c, 'st, 't) collaborators \<Rightarrow> ('k, 'c, 'st) MemSeriesAppender \<Rightarrow> nat \<Rightarrow> bool" where
  "healthy env a n \<longleftrightarrow>
     bound a \<and> parallel (a_s a) \<and> in_step env (a_s a) n \<and> numSamples (a_s a) = of_nat n"

text \<open>The series after lines 171-235 of a call that gets that far: the tags fixed, and the
  columns rolled if the tail chunk was full.\<close>

definition afterRollDecision ::
  "('k, 'c, 'st, 't) collaborators \<Rightarrow> ('k, 'c, 'st) MemSeries \<Rightarrow> 't Profile \<Rightarrow>
     ('k, 'c, 'st) MemSeries" where
  "afterRollDecision env s p =
     (if tailFull env s then rolled env (fixTypes s p) (Timestamp (Meta p)) else fixTypes s p)"

text \<open>A sequence of 121 samples: one at time 100 with the stack node \<open>main\<close>, then 120 with
  empty trees; and its first 120 samples.\<close>

definition run121 :: "string rawTree Profile list" where
  "run121 = sample cpu cpu 100 [(''main'', 1, 2)] # ramp 101 220"

definition run120 :: "string rawTree Profile list" where
  "run120 = sample cpu cpu 100 [(''main'', 1, 2)] # ramp 101 219"

text \<open>The appender after the 120 samples of \<open>run120\<close>, and a 121st sample, which
  introduces the stack node \<open>f\<close>.\<close>

definition appender120 :: "(string, rawChunk, unit) MemSeriesAppender" where
  "appender120 = snd (appendAll raw_env appender0 run120)"

definition sample121 :: "string rawTree Profile" where
  "sample121 = sample cpu cpu 220 [(''f'', 3, 4)]"

text \<open>The appender after 65536 samples at the times 1, ..., 65536, all of type \<open>cpu\<close>, and a
  sample of another type at time 65537.\<close>

definition appender65536 :: "(string, rawChunk, unit) MemSeriesAppender" where
  "appender65536 = snd (appendAll raw_env appender0 (ramp 1 65536))"

definition sample65537 :: "string rawTree Profile" where
  "sample65537 = sample alloc alloc 65537 []"


definition appender65640 :: "(string, rawChunk, unit) MemSeriesAppender" where
  "appender65640 = snd (appendAll raw_env appender0 (ramp 1 65640))"

definition sample65641 :: "string rawTree Profile" where
  "sample65641 = sample cpu cpu 65641 []"

section \<open>Properties\<close>

subsection \<open>The steps of Append\<close>

lemma fixTypes_same:
  assumes "equalValueType (periodType s) (PeriodType (Meta p))"
    and "equalValueType (sampleType s) (SampleType (Meta p))"
  shows "fixTypes s p = s"
  using assms by (simp add: fixTypes_def equalValueType_def)

lemma fixTypes_frame:
  "timestamps (fixTypes s p) = timestamps s"
  "durations (fixTypes s p) = durations s"
  "periods (fixTypes s p) = periods s"
  "flatValues (fixTypes s p) = flatValues s"
  "cumulativeValues (fixTypes s p) = cumulativeValues s"
  "numSamples (fixTypes s p) = numSamples s"
  "minTime (fixTypes s p) = minTime s"
  "maxTime (fixTypes s p) = maxTime s"
  by (simp_all add: fixTypes_def)

lemma rollChunks_None:
  assumes "rollChunks env a t = (None, a2)"
  shows "a_s a2 = rolled env (a_s a) t"
    and "a_timestamps a2 = length (timestamps (a_s a))"
    and "a_duration a2 = length (durations (a_s a))"
    and "a_periods a2 = length (periods (a_s a))"
  using assms
  by (auto simp: rollChunks_def rolled_def Let_def split: option.splits)

lemma rollChunks_error:
  assumes "rollChunks env a t = (Some e, a2)"
  shows "\<not> validation_error e"
  using assms
  by (auto simp: rollChunks_def Let_def validation_error_def split: option.splits)

lemma rollChunks_core:
  assumes "rollChunks env a t = (r, a2)"
  shows "numSamples (a_s a2) = numSamples (a_s a) \<and> minTime (a_s a2) = minTime (a_s a) \<and>
         maxTime (a_s a2) = maxTime (a_s a)"
  using assms by (auto simp: rollChunks_def Let_def split: option.splits)

lemma rollChunks_reliable:
  assumes "reliable env"
  shows "\<exists>a2. rollChunks env a t = (None, a2)"
  using assms by (simp add: rollChunks_def reliable_def Let_def)

lemma same_frameD:
  assumes "same_frame s s'"
  shows "timestamps s' = timestamps s" "durations s' = durations s" "periods s' = periods s"
    "numSamples s' = numSamples s" "minTime s' = minTime s" "maxTime s' = maxTime s"
    "periodType s' = periodType s" "sampleType s' = sampleType s"
    "lset s' = lset s" "series_id s' = series_id s" "samplesAppended s' = samplesAppended s"
  using assms by (simp_all add: same_frame_def)

lemma appendTree_Insert:
  "appendTree env s t = (e, s') \<Longrightarrow>
     \<exists>s1. same_frame s s1 \<and> flatValues s1 = flatValues s \<and>
          cumulativeValues s1 = cumulativeValues s \<and>
          Insert env (numSamples s mod of_nat samplesPerChunk) t s1 = (e, s')"
proof (cases "seriesTree s = None")
  case True
  assume "appendTree env s t = (e, s')"
  with True have
    "Insert env (numSamples s mod of_nat samplesPerChunk) t (s\<lparr>seriesTree := Some (NewTree env)\<rparr>) =
       (e, s')"
    by (simp add: appendTree_def Let_def)
  then show ?thesis
    by (intro exI [of _ "s\<lparr>seriesTree := Some (NewTree env)\<rparr>"]) (simp add: same_frame_def)
next
  case False
  assume "appendTree env s t = (e, s')"
  with False have "Insert env (numSamples s mod of_nat samplesPerChunk) t s = (e, s')"
    by (auto simp: appendTree_def Let_def)
  then show ?thesis
    by (intro exI [of _ s]) (simp add: same_frame_def)
qed

lemma appendTree_frame:
  assumes "tree_contract env" and "appendTree env s t = (e, s')"
  shows "timestamps s' = timestamps s" "durations s' = durations s" "periods s' = periods s"
    "numSamples s' = numSamples s" "minTime s' = minTime s" "maxTime s' = maxTime s"
    "periodType s' = periodType s" "sampleType s' = sampleType s"
    "lset s' = lset s" "series_id s' = series_id s" "samplesAppended s' = samplesAppended s"
proof -
  from appendTree_Insert [OF assms(2)] obtain s1 where
    s1: "same_frame s s1" and ins: "Insert env (numSamples s mod of_nat samplesPerChunk) t s1 = (e, s')"
    by blast
  from assms(1) ins have "same_frame s1 s'"
    unfolding tree_contract_def by blast
  with s1 have "same_frame s s'"
    by (simp add: same_frame_def)
  then show "timestamps s' = timestamps s" "durations s' = durations s" "periods s' = periods s"
    "numSamples s' = numSamples s" "minTime s' = minTime s" "maxTime s' = maxTime s"
    "periodType s' = periodType s" "sampleType s' = sampleType s"
    "lset s' = lset s" "series_id s' = series_id s" "samplesAppended s' = samplesAppended s"
    by (rule same_frameD)+
qed

lemma appendTree_columns:
  assumes "tree_contract env" and "appendTree env s t = (None, s')"
  shows "column_rule (length (timestamps s)) (flatValues s) (flatValues s')"
    and "column_rule (length (timestamps s)) (cumulativeValues s) (cumulativeValues s')"
proof -
  from appendTree_Insert [OF assms(2)] obtain s1 where
    s1: "same_frame s s1" "flatValues s1 = flatValues s" "cumulativeValues s1 = cumulativeValues s"
    and ins: "Insert env (numSamples s mod of_nat samplesPerChunk) t s1 = (None, s')"
    by blast
  from assms(1) ins have
    "column_rule (length (timestamps s1)) (flatValues s1) (flatValues s') \<and>
     column_rule (length (timestamps s1)) (cumulativeValues s1) (cumulativeValues s')"
    unfolding tree_contract_def by fastforce
  with s1 show "column_rule (length (timestamps s)) (flatValues s) (flatValues s')"
    and "column_rule (length (timestamps s)) (cumulativeValues s) (cumulativeValues s')"
    by (simp_all add: same_frame_def)
qed

lemma appendTree_error:
  assumes "tree_contract env" and "appendTree env s t = (Some e, s')"
  shows "\<not> validation_error e"
proof -
  from appendTree_Insert [OF assms(2)] obtain s1 where
    "Insert env (numSamples s mod of_nat samplesPerChunk) t s1 = (Some e, s')"
    by blast
  with assms(1) show ?thesis
    unfolding tree_contract_def by fastforce
qed

lemma appendTree_core:
  assumes "tree_contract env" and "appendTree env s t = (e, s')"
  shows "numSamples s' = numSamples s \<and> minTime s' = minTime s \<and> maxTime s' = maxTime s"
  using appendTree_frame [OF assms] by simp

lemma appendTree_reliable:
  assumes "reliable env"
  shows "\<exists>s'. appendTree env s t = (None, s')"
  using assms unfolding appendTree_def reliable_def Let_def
  by (metis prod.collapse)

lemma writeSample_frame:
  "length (timestamps (writeSample env a s p)) = length (timestamps s)"
  "length (durations (writeSample env a s p)) = length (durations s)"
  "length (periods (writeSample env a s p)) = length (periods s)"
  "flatValues (writeSample env a s p) = flatValues s"
  "cumulativeValues (writeSample env a s p) = cumulativeValues s"
  "numSamples (writeSample env a s p) = numSamples s"
  "minTime (writeSample env a s p) = minTime s"
  "maxTime (writeSample env a s p) = maxTime s"
  "periodType (writeSample env a s p) = periodType s"
  "sampleType (writeSample env a s p) = sampleType s"
  by (simp_all add: writeSample_def Let_def)

lemma bookkeeping_frame:
  "length (timestamps (bookkeeping s t)) = length (timestamps s)"
  "durations (bookkeeping s t) = durations s"
  "periods (bookkeeping s t) = periods s"
  "flatValues (bookkeeping s t) = flatValues s"
  "cumulativeValues (bookkeeping s t) = cumulativeValues s"
  "numSamples (bookkeeping s t) = numSamples s + 1"
  "maxTime (bookkeeping s t) = t"
  "minTime (bookkeeping s t) = (if minTime s = 0 \<and> t \<noteq> 0 then t else minTime s)"
  "periodType (bookkeeping s t) = periodType s"
  "sampleType (bookkeeping s t) = sampleType s"
  by (simp_all add: bookkeeping_def Let_def)

lemma Append_accepted:
  assumes "Append env a p = (None, a')"
  obtains a2 s3 where
    "equalValueType (periodType (fixTypes (a_s a) p)) (PeriodType (Meta p))"
    "equalValueType (sampleType (fixTypes (a_s a) p)) (SampleType (Meta p))"
    "\<not> Timestamp (Meta p) \<le>s maxTime (a_s a)"
    "timestamps (a_s a) \<noteq> []"
    "if tailFull env (a_s a)
     then rollChunks env (a\<lparr>a_s := fixTypes (a_s a) p\<rparr>) (Timestamp (Meta p)) = (None, a2)
     else a2 = a\<lparr>a_s := fixTypes (a_s a) p\<rparr>"
    "appendTree env (a_s a2) (Tree p) = (None, s3)"
    "timestamps (writeSample env a2 s3 p) \<noteq> []"
    "a' = a2\<lparr>a_s := bookkeeping (writeSample env a2 s3 p) (Timestamp (Meta p))\<rparr>"
  using assms
  by (auto simp: Append_def Let_def tailFull_def fixTypes_frame
      split: if_splits option.splits prod.splits)

lemma Append_rejected:
  assumes "tree_contract env" and "Append env a p = (Some e, a')" and "validation_error e"
  shows "a' = a\<lparr>a_s := fixTypes (a_s a) p\<rparr>"
  using assms
  by (auto simp: Append_def Let_def validation_error_def
      split: if_splits option.splits prod.splits
      dest: rollChunks_error appendTree_error)

lemma Append_core_failed:
  assumes "tree_contract env" and "Append env a p = (Some e, a')"
  shows "numSamples (a_s a') = numSamples (a_s a) \<and> minTime (a_s a') = minTime (a_s a) \<and>
         maxTime (a_s a') = maxTime (a_s a)"
  using assms(2) unfolding Append_def Let_def
  by (auto split: if_splits option.splits prod.splits
      simp: fixTypes_frame writeSample_frame
      dest!: rollChunks_core appendTree_core [OF assms(1)])

lemma Append_core_accepted:
  assumes "tree_contract env" and "Append env a p = (None, a')"
  shows "numSamples (a_s a') = numSamples (a_s a) + 1 \<and>
         minTime (a_s a') =
           (if minTime (a_s a) = 0 \<and> Timestamp (Meta p) \<noteq> 0 then Timestamp (Meta p)
            else minTime (a_s a)) \<and>
         maxTime (a_s a') = Timestamp (Meta p)"
proof -
  from assms(2) obtain a2 s3 where
    roll: "if tailFull env (a_s a)
           then rollChunks env (a\<lparr>a_s := fixTypes (a_s a) p\<rparr>) (Timestamp (Meta p)) = (None, a2)
           else a2 = a\<lparr>a_s := fixTypes (a_s a) p\<rparr>"
    and tree: "appendTree env (a_s a2) (Tree p) = (None, s3)"
    and res: "a' = a2\<lparr>a_s := bookkeeping (writeSample env a2 s3 p) (Timestamp (Meta p))\<rparr>"
    by (rule Append_accepted)
  from roll have "numSamples (a_s a2) = numSamples (a_s a) \<and> minTime (a_s a2) = minTime (a_s a) \<and>
         maxTime (a_s a2) = maxTime (a_s a)"
    by (auto simp: fixTypes_frame dest: rollChunks_core split: if_splits)
  with appendTree_core [OF assms(1) tree] show ?thesis
    by (simp add: res bookkeeping_frame writeSample_frame)
qed

lemma Append_core:
  assumes "tree_contract env" and "Append env a p = (r, a')"
  shows "numSamples (a_s a') = (if r = None then numSamples (a_s a) + 1 else numSamples (a_s a))"
    and "minTime (a_s a') =
           (if r = None \<and> minTime (a_s a) = 0 \<and> Timestamp (Meta p) \<noteq> 0 then Timestamp (Meta p)
            else minTime (a_s a))"
    and "maxTime (a_s a') = (if r = None then Timestamp (Meta p) else maxTime (a_s a))"
  using Append_core_accepted [OF assms(1), of a p a'] Append_core_failed [OF assms(1), of a p _ a'] assms(2)
  by (cases r; simp)+

lemma Append_accepts:
  assumes "tree_contract env" and "reliable env"
    and "timestamps (a_s a) \<noteq> []"
    and "\<not> Timestamp (Meta p) \<le>s maxTime (a_s a)"
    and "numSamples (a_s a) = 0 \<or>
         periodType (a_s a) = PeriodType (Meta p) \<and> sampleType (a_s a) = SampleType (Meta p)"
  shows "\<exists>a'. Append env a p = (None, a') \<and> timestamps (a_s a') \<noteq> [] \<and>
              periodType (a_s a') = PeriodType (Meta p) \<and> sampleType (a_s a') = SampleType (Meta p)"
proof -
  let ?a1 = "a\<lparr>a_s := fixTypes (a_s a) p\<rparr>"
  let ?t = "Timestamp (Meta p)"
  have tags: "periodType (a_s ?a1) = PeriodType (Meta p)" "sampleType (a_s ?a1) = SampleType (Meta p)"
    using assms(5) by (auto simp: fixTypes_def)
  obtain a2 where a2: "if tailFull env (a_s a) then rollChunks env ?a1 ?t = (None, a2) else a2 = ?a1"
    using rollChunks_reliable [OF assms(2), of ?a1 ?t] by (cases "tailFull env (a_s a)") auto
  have a2_facts: "timestamps (a_s a2) \<noteq> []" "periodType (a_s a2) = PeriodType (Meta p)"
    "sampleType (a_s a2) = SampleType (Meta p)"
    using a2 assms(3) tags
    by (auto simp: fixTypes_frame rolled_def dest!: rollChunks_None(1) split: if_splits)
  obtain s3 where s3: "appendTree env (a_s a2) (Tree p) = (None, s3)"
    using appendTree_reliable [OF assms(2)] by blast
  note fr = appendTree_frame [OF assms(1) s3]
  let ?s4 = "writeSample env a2 s3 p"
  have s4: "timestamps ?s4 \<noteq> []"
    using a2_facts(1) fr(1) writeSample_frame(1) [of env a2 s3 p] by (metis length_0_conv)
  have roll_eq: "(if int samplesPerChunk \<le> NumSamples env (chunk (last (timestamps (fixTypes (a_s a) p))))
                  then rollChunks env ?a1 ?t else (None, ?a1)) = (None, a2)"
    using a2 by (simp add: tailFull_def fixTypes_frame)
  have "Append env a p = (None, a2\<lparr>a_s := bookkeeping ?s4 ?t\<rparr>)"
    using tags assms(3,4) s3 s4 roll_eq
    by (simp add: Append_def Let_def equalValueType_def fixTypes_frame)
  moreover have "timestamps (bookkeeping ?s4 ?t) \<noteq> []"
    using s4 bookkeeping_frame(1) [of ?s4 ?t] by (metis length_0_conv)
  ultimately show ?thesis
    using a2_facts fr by (simp add: bookkeeping_frame writeSample_frame)
qed

lemma rollChunks_tags:
  assumes "rollChunks env a t = (r, a2)"
  shows "periodType (a_s a2) = periodType (a_s a) \<and> sampleType (a_s a2) = sampleType (a_s a)"
  using assms by (auto simp: rollChunks_def Let_def split: option.splits)

lemma appendTree_tags:
  assumes "tree_contract env" and "appendTree env s t = (e, s')"
  shows "periodType s' = periodType s \<and> sampleType s' = sampleType s"
  using appendTree_frame [OF assms] by simp

lemma fixTypes_tags:
  "periodType (fixTypes s p) = (if numSamples s = 0 then PeriodType (Meta p) else periodType s)"
  "sampleType (fixTypes s p) = (if numSamples s = 0 then SampleType (Meta p) else sampleType s)"
  by (simp_all add: fixTypes_def)

lemma Append_tags:
  assumes "tree_contract env" and "Append env a p = (r, a')"
  shows "periodType (a_s a') = periodType (fixTypes (a_s a) p) \<and>
         sampleType (a_s a') = sampleType (fixTypes (a_s a) p)"
  using assms(2) unfolding Append_def Let_def
  by (auto split: if_splits option.splits prod.splits
      simp: writeSample_frame bookkeeping_frame
      dest!: rollChunks_tags appendTree_tags [OF assms(1)])

subsection \<open>The loops of stats\<close>

lemma fold_snoc_map: "fold (\<lambda>c acc. acc @ [f c]) cs acc = acc @ map f cs"
  by (induction cs arbitrary: acc) simp_all

lemma chunkStats_concat:
  "chunkStats env m = concat (map (\<lambda>(k, chunks). map (chunkStat env) chunks) m)"
proof -
  have "fold (\<lambda>(k, chunks) acc.
             fold (\<lambda>c acc'. acc' @ [\<lparr>v_samples = NumSamples env c,
                                      v_bytes = int (length (Bytes env c))\<rparr>]) chunks acc) m acc
        = acc @ concat (map (\<lambda>(k, chunks). map (chunkStat env) chunks) m)" for acc
  proof (induction m arbitrary: acc)
    case Nil
    show ?case by simp
  next
    case (Cons kc m)
    obtain k cs where kc: "kc = (k, cs)" by (cases kc)
    show ?case
      using fold_snoc_map [of "chunkStat env" cs acc]
      by (simp add: kc Cons.IH chunkStat_def)
  qed
  from this [of "[]"] show ?thesis by (simp add: chunkStats_def)
qed

subsection \<open>Sequences of calls\<close>

lemma appendAll_Cons:
  "appendAll env a (p # ps) = (rs, a'') \<longleftrightarrow>
     (\<exists>r a' rs'. Append env a p = (r, a') \<and> appendAll env a' ps = (rs', a'') \<and> rs = r # rs')"
  by (auto split: prod.splits)

lemma appendAll_length:
  "appendAll env a ps = (rs, a') \<Longrightarrow> length rs = length ps"
  by (induction ps arbitrary: a rs) (auto simp del: appendAll.simps(2) simp: appendAll_Cons)

lemma accepted_simps [simp]:
  "accepted [] = 0"
  "accepted (r # rs) = (if r = None then Suc (accepted rs) else accepted rs)"
  by (simp_all add: accepted_def)

lemma acceptedSamples_simps [simp]:
  "acceptedSamples [] ps = []"
  "acceptedSamples rs [] = []"
  "acceptedSamples (r # rs) (p # ps) =
     (if r = None then p # acceptedSamples rs ps else acceptedSamples rs ps)"
  by (simp_all add: acceptedSamples_def)

lemma firstNonzero_simps [simp]:
  "firstNonzero [] = 0"
  "firstNonzero (p # ps) =
     (if Timestamp (Meta p) \<noteq> 0 then Timestamp (Meta p) else firstNonzero ps)"
  by (simp_all add: firstNonzero_def)

lemma length_acceptedSamples:
  "length rs = length ps \<Longrightarrow> length (acceptedSamples rs ps) = accepted rs"
  by (induction rs ps rule: list_induct2) simp_all

lemma appendAll_core:
  assumes "tree_contract env" and "appendAll env a ps = (rs, a')"
  shows "numSamples (a_s a') = numSamples (a_s a) + of_nat (accepted rs) \<and>
         maxTime (a_s a') =
           (if acceptedSamples rs ps = [] then maxTime (a_s a)
            else Timestamp (Meta (last (acceptedSamples rs ps)))) \<and>
         minTime (a_s a') =
           (if minTime (a_s a) \<noteq> 0 then minTime (a_s a) else firstNonzero (acceptedSamples rs ps))"
  using assms(2)
proof (induction ps arbitrary: a rs)
  case Nil
  then show ?case by simp
next
  case (Cons p ps)
  from Cons.prems obtain r a1 rs' where
    step: "Append env a p = (r, a1)" and rest: "appendAll env a1 ps = (rs', a')" and rs: "rs = r # rs'"
    unfolding appendAll_Cons by blast
  note c = Append_core [OF assms(1) step]
  note ih = Cons.IH [OF rest]
  show ?case
  proof (cases r)
    case None
    with c ih show ?thesis
      by (simp add: rs)
  next
    case (Some e)
    with c ih show ?thesis
      by (simp add: rs)
  qed
qed

lemma appendAll_accepts:
  assumes "tree_contract env" and "reliable env"
    and "timestamps (a_s a) \<noteq> []"
    and "sorted_wrt (\<lambda>p q. Timestamp (Meta p) <s Timestamp (Meta q)) ps"
    and "\<forall>p \<in> set ps. maxTime (a_s a) <s Timestamp (Meta p) \<and>
                       PeriodType (Meta p) = ty \<and> SampleType (Meta p) = ty"
    and "numSamples (a_s a) = 0 \<or> periodType (a_s a) = ty \<and> sampleType (a_s a) = ty"
  shows "fst (appendAll env a ps) = replicate (length ps) None"
  using assms(3-)
proof (induction ps arbitrary: a)
  case Nil
  show ?case by simp
next
  case (Cons p ps)
  have late: "\<not> Timestamp (Meta p) \<le>s maxTime (a_s a)"
    using Cons.prems(3) by (simp add: word_sle_eq word_sless_alt)
  have ty: "numSamples (a_s a) = 0 \<or>
         periodType (a_s a) = PeriodType (Meta p) \<and> sampleType (a_s a) = SampleType (Meta p)"
    using Cons.prems(3,4) by auto
  from Append_accepts [OF assms(1,2) Cons.prems(1) late ty] obtain a1 where
    step: "Append env a p = (None, a1)" and ts1: "timestamps (a_s a1) \<noteq> []"
    and ty1: "periodType (a_s a1) = PeriodType (Meta p)" "sampleType (a_s a1) = SampleType (Meta p)"
    by blast
  have mx: "maxTime (a_s a1) = Timestamp (Meta p)"
    using Append_core(3) [OF assms(1) step] by simp
  have "fst (appendAll env a1 ps) = replicate (length ps) None"
  proof (rule Cons.IH [OF ts1])
    show "sorted_wrt (\<lambda>p q. Timestamp (Meta p) <s Timestamp (Meta q)) ps"
      using Cons.prems(2) by simp
    show "\<forall>q \<in> set ps. maxTime (a_s a1) <s Timestamp (Meta q) \<and>
                       PeriodType (Meta q) = ty \<and> SampleType (Meta q) = ty"
      using Cons.prems(2,3) by (simp add: mx)
    show "numSamples (a_s a1) = 0 \<or> periodType (a_s a1) = ty \<and> sampleType (a_s a1) = ty"
      using ty1 Cons.prems(3) by simp
  qed
  with step show ?case
    by (cases "appendAll env a1 ps") simp
qed

lemma appendAll_append:
  "appendAll env a (ps @ qs) =
     (case appendAll env a ps of
        (rs, a1) \<Rightarrow> (case appendAll env a1 qs of (rs', a2) \<Rightarrow> (rs @ rs', a2)))"
  by (induction ps arbitrary: a) (simp_all split: prod.splits)

lemma appendAll_tags:
  assumes "tree_contract env" and "appendAll env a ps = (rs, a')"
    and "\<forall>p \<in> set ps. PeriodType (Meta p) = ty \<and> SampleType (Meta p) = ty"
    and "numSamples (a_s a) = 0 \<and> ps \<noteq> [] \<or> periodType (a_s a) = ty \<and> sampleType (a_s a) = ty"
  shows "periodType (a_s a') = ty \<and> sampleType (a_s a') = ty"
  using assms(2-)
proof (induction ps arbitrary: a rs)
  case Nil
  then show ?case by simp
next
  case (Cons p ps)
  from Cons.prems(1) obtain r a1 rs' where
    step: "Append env a p = (r, a1)" and rest: "appendAll env a1 ps = (rs', a')"
    unfolding appendAll_Cons by blast
  from Append_tags [OF assms(1) step] Cons.prems(2,3)
  have "periodType (a_s a1) = ty \<and> sampleType (a_s a1) = ty"
    by (auto simp: fixTypes_tags)
  with Cons.IH [OF rest] Cons.prems(2) show ?case by simp
qed

lemma acceptedSamples_all:
  "acceptedSamples (replicate (length ps) None) ps = ps"
  by (induction ps) simp_all

subsection \<open>Chunk counts\<close>

lemma column_rule_all:
  assumes "column_rule n old new" and "\<forall>(k, cs) \<in> set old. length cs = n"
  shows "\<forall>(k, cs) \<in> set new. length cs = n"
  using assms unfolding column_rule_def by fastforce

lemma column_rule_refl: "column_rule n m m"
  by (auto simp: column_rule_def)

lemma column_rule_trans:
  assumes "column_rule n old mid" and "column_rule n mid new"
  shows "column_rule n old new"
  unfolding column_rule_def
proof clarify
  fix k cs
  assume new: "(k, cs) \<in> set new" and neq: "\<not> (\<exists>cs0. (k, cs0) \<in> set old \<and> length cs0 = length cs)"
  from assms(2) new consider "length cs = n" | cs1 where "(k, cs1) \<in> set mid" "length cs1 = length cs"
    by (auto simp: column_rule_def)
  then show "length cs = n"
  proof cases
    case 1
    then show ?thesis .
  next
    case 2
    with assms(1) neq show ?thesis
      by (auto simp: column_rule_def)
  qed
qed

lemma parallel_rolled:
  assumes "parallel s"
  shows "parallel (rolled env s t)"
  using assms by (auto simp: parallel_def rolled_def)

lemma parallel_fixTypes: "parallel (fixTypes s p) = parallel s"
  by (simp add: parallel_def fixTypes_frame)

lemma parallel_appendTree:
  assumes "tree_contract env" and "appendTree env s t = (None, s')" and "parallel s"
  shows "parallel s'"
proof -
  note fr = appendTree_frame [OF assms(1,2)]
  note cols = appendTree_columns [OF assms(1,2)]
  from assms(3) have
    f: "\<forall>(k, cs) \<in> set (flatValues s). length cs = length (timestamps s)" and
    c: "\<forall>(k, cs) \<in> set (cumulativeValues s). length cs = length (timestamps s)"
    by (simp_all add: parallel_def)
  from column_rule_all [OF cols(1) f] column_rule_all [OF cols(2) c] assms(3)
  show ?thesis
    by (simp add: parallel_def fr(1,2,3))
qed

lemma parallel_written:
  assumes "parallel s"
  shows "parallel (bookkeeping (writeSample env a s p) t)"
  using assms by (simp add: parallel_def bookkeeping_frame writeSample_frame)

lemma Append_parallel:
  assumes "tree_contract env" and "parallel (a_s a)" and "Append env a p = (None, a')"
  shows "parallel (a_s a')"
proof -
  from assms(3) obtain a2 s3 where
    roll: "if tailFull env (a_s a)
           then rollChunks env (a\<lparr>a_s := fixTypes (a_s a) p\<rparr>) (Timestamp (Meta p)) = (None, a2)
           else a2 = a\<lparr>a_s := fixTypes (a_s a) p\<rparr>"
    and tree: "appendTree env (a_s a2) (Tree p) = (None, s3)"
    and res: "a' = a2\<lparr>a_s := bookkeeping (writeSample env a2 s3 p) (Timestamp (Meta p))\<rparr>"
    by (rule Append_accepted)
  have "parallel (a_s a2)"
  proof (cases "tailFull env (a_s a)")
    case True
    with roll have "a_s a2 = rolled env (fixTypes (a_s a) p) (Timestamp (Meta p))"
      by (simp add: rollChunks_None(1))
    with assms(2) show ?thesis
      by (simp add: parallel_rolled parallel_fixTypes)
  next
    case False
    with roll assms(2) show ?thesis
      by (simp add: parallel_fixTypes)
  qed
  with assms(1) tree have "parallel s3"
    by (rule parallel_appendTree)
  then show ?thesis
    by (simp add: res parallel_written)
qed

subsection \<open>The counter and the chunks in step\<close>

lemma writeSample_tail:
  assumes "a_timestamps a = length (timestamps s) - 1"
    and "a_duration a = length (durations s) - 1"
    and "a_periods a = length (periods s) - 1"
    and "timestamps s \<noteq> []" and "durations s \<noteq> []" and "periods s \<noteq> []"
  shows "chunk (last (timestamps (writeSample env a s p))) =
           AppendAt env (chunk (last (timestamps s))) (numSamples s mod of_nat samplesPerChunk)
             (Timestamp (Meta p))"
    and "last (durations (writeSample env a s p)) =
           AppendAt env (last (durations s)) (numSamples s mod of_nat samplesPerChunk)
             (Duration (Meta p))"
    and "last (periods (writeSample env a s p)) =
           AppendAt env (last (periods s)) (numSamples s mod of_nat samplesPerChunk)
             (Period (Meta p))"
    and "butlast (timestamps (writeSample env a s p)) = butlast (timestamps s)"
    and "butlast (durations (writeSample env a s p)) = butlast (durations s)"
    and "butlast (periods (writeSample env a s p)) = butlast (periods s)"
  using assms
  by (simp_all add: writeSample_def Let_def last_list_update butlast_list_update last_conv_nth)

lemma bookkeeping_tail:
  assumes "timestamps s \<noteq> []"
  shows "chunk (last (timestamps (bookkeeping s t))) = chunk (last (timestamps s))"
    and "butlast (timestamps (bookkeeping s t)) = butlast (timestamps s)"
  using assms
  by (simp_all add: bookkeeping_def Let_def last_list_update butlast_list_update last_conv_nth)

lemma Append_accepted_tail:
  assumes "tree_contract env" and "bound a" and "parallel (a_s a)"
    and "Append env a p = (None, a')"
  shows "bound a' \<and>
    length (timestamps (a_s a')) = length (timestamps (afterRollDecision env (a_s a) p)) \<and>
    chunk (last (timestamps (a_s a'))) =
      AppendAt env (chunk (last (timestamps (afterRollDecision env (a_s a) p))))
        (numSamples (a_s a) mod of_nat samplesPerChunk) (Timestamp (Meta p)) \<and>
    last (durations (a_s a')) =
      AppendAt env (last (durations (afterRollDecision env (a_s a) p)))
        (numSamples (a_s a) mod of_nat samplesPerChunk) (Duration (Meta p)) \<and>
    last (periods (a_s a')) =
      AppendAt env (last (periods (afterRollDecision env (a_s a) p)))
        (numSamples (a_s a) mod of_nat samplesPerChunk) (Period (Meta p)) \<and>
    butlast (timestamps (a_s a')) = butlast (timestamps (afterRollDecision env (a_s a) p)) \<and>
    butlast (durations (a_s a')) = butlast (durations (afterRollDecision env (a_s a) p)) \<and>
    butlast (periods (a_s a')) = butlast (periods (afterRollDecision env (a_s a) p)) \<and>
    (\<exists>s3. appendTree env (afterRollDecision env (a_s a) p) (Tree p) = (None, s3) \<and>
          flatValues (a_s a') = flatValues s3 \<and> cumulativeValues (a_s a') = cumulativeValues s3)"
proof -
  let ?s1 = "afterRollDecision env (a_s a) p"
  let ?t = "Timestamp (Meta p)"
  from assms(4) obtain a2 s3 where
    ne: "timestamps (a_s a) \<noteq> []"
    and roll: "if tailFull env (a_s a)
           then rollChunks env (a\<lparr>a_s := fixTypes (a_s a) p\<rparr>) ?t = (None, a2)
           else a2 = a\<lparr>a_s := fixTypes (a_s a) p\<rparr>"
    and tree: "appendTree env (a_s a2) (Tree p) = (None, s3)"
    and res: "a' = a2\<lparr>a_s := bookkeeping (writeSample env a2 s3 p) ?t\<rparr>"
    by (rule Append_accepted)
  from assms(3) ne have ne': "durations (a_s a) \<noteq> []" "periods (a_s a) \<noteq> []"
    by (auto simp: parallel_def)
  have a2': "a_s a2 = ?s1 \<and> a_timestamps a2 = length (timestamps ?s1) - 1 \<and>
      a_duration a2 = length (durations ?s1) - 1 \<and> a_periods a2 = length (periods ?s1) - 1"
  proof -
    show "a_s a2 = ?s1 \<and> a_timestamps a2 = length (timestamps ?s1) - 1 \<and>
      a_duration a2 = length (durations ?s1) - 1 \<and> a_periods a2 = length (periods ?s1) - 1"
    proof (cases "tailFull env (a_s a)")
      case True
      with roll have "rollChunks env (a\<lparr>a_s := fixTypes (a_s a) p\<rparr>) ?t = (None, a2)" by simp
      from rollChunks_None [OF this] True show ?thesis
        by (simp add: afterRollDecision_def rolled_def fixTypes_frame)
    next
      case False
      with roll assms(2) show ?thesis
        by (simp add: afterRollDecision_def bound_def fixTypes_frame)
    qed
  qed
  then have a2: "a_s a2 = ?s1" "a_timestamps a2 = length (timestamps ?s1) - 1"
    "a_duration a2 = length (durations ?s1) - 1" "a_periods a2 = length (periods ?s1) - 1"
    by simp_all
  have ne1: "timestamps ?s1 \<noteq> []" "durations ?s1 \<noteq> []" "periods ?s1 \<noteq> []"
    using ne ne' by (simp_all add: afterRollDecision_def rolled_def fixTypes_frame)
  note fr = appendTree_frame [OF assms(1) tree]
  have cur: "a_timestamps a2 = length (timestamps s3) - 1"
    "a_duration a2 = length (durations s3) - 1" "a_periods a2 = length (periods s3) - 1"
    "timestamps s3 \<noteq> []" "durations s3 \<noteq> []" "periods s3 \<noteq> []"
    using a2 ne1 fr by simp_all
  note w = writeSample_tail [OF cur, of env p]
  have wne: "timestamps (writeSample env a2 s3 p) \<noteq> []"
    using cur(4) writeSample_frame(1) [of env a2 s3 p] by (metis length_0_conv)
  note b = bookkeeping_tail [OF wne, of ?t]
  have num: "numSamples s3 = numSamples (a_s a)"
    using fr(4) a2(1) by (simp add: afterRollDecision_def rolled_def fixTypes_frame)
  have "bound a'"
    using cur by (simp add: res bound_def bookkeeping_frame writeSample_frame)
  moreover have "length (timestamps (a_s a')) = length (timestamps ?s1)"
    using fr(1) a2(1) by (simp add: res bookkeeping_frame writeSample_frame)
  moreover have "chunk (last (timestamps (a_s a'))) =
      AppendAt env (chunk (last (timestamps ?s1)))
        (numSamples (a_s a) mod of_nat samplesPerChunk) ?t"
    using b(1) w(1) fr(1) a2(1) num by (simp add: res)
  moreover have "last (durations (a_s a')) =
      AppendAt env (last (durations ?s1))
        (numSamples (a_s a) mod of_nat samplesPerChunk) (Duration (Meta p))"
    using w(2) fr(2) a2(1) num by (simp add: res bookkeeping_frame)
  moreover have "last (periods (a_s a')) =
      AppendAt env (last (periods ?s1))
        (numSamples (a_s a) mod of_nat samplesPerChunk) (Period (Meta p))"
    using w(3) fr(3) a2(1) num by (simp add: res bookkeeping_frame)
  moreover have "butlast (timestamps (a_s a')) = butlast (timestamps ?s1)"
    using b(2) w(4) fr(1) a2(1) by (simp add: res)
  moreover have "butlast (durations (a_s a')) = butlast (durations ?s1)"
    using w(5) fr(2) a2(1) by (simp add: res bookkeeping_frame)
  moreover have "butlast (periods (a_s a')) = butlast (periods ?s1)"
    using w(6) fr(3) a2(1) by (simp add: res bookkeeping_frame)
  moreover have "\<exists>s3. appendTree env ?s1 (Tree p) = (None, s3) \<and>
          flatValues (a_s a') = flatValues s3 \<and> cumulativeValues (a_s a') = cumulativeValues s3"
    using tree a2(1) by (auto simp: res bookkeeping_frame writeSample_frame)
  ultimately show ?thesis by blast
qed


lemma tailCount_full:
  assumes "samplesPerChunk \<le> tailCount n"
  shows "0 < n \<and> n mod samplesPerChunk = 0 \<and> tailCount n = samplesPerChunk"
proof (cases n)
  case 0
  with assms show ?thesis by (simp add: tailCount_def samplesPerChunk_def)
next
  case (Suc m)
  with assms have "m mod 120 = 119"
    by (simp add: tailCount_def samplesPerChunk_def)
  then show ?thesis
    by (simp add: Suc tailCount_def samplesPerChunk_def mod_Suc)
qed

lemma tailCount_room:
  assumes "tailCount n < samplesPerChunk"
  shows "n mod samplesPerChunk = tailCount n"
proof (cases n)
  case 0
  then show ?thesis by (simp add: tailCount_def)
next
  case (Suc m)
  with assms have "m mod 120 < 119"
    by (simp add: tailCount_def samplesPerChunk_def)
  then show ?thesis
    by (simp add: Suc tailCount_def samplesPerChunk_def mod_Suc)
qed

lemma tailCount_Suc: "tailCount (Suc n) = n mod samplesPerChunk + 1"
  by (simp add: tailCount_def)

lemma chunks_Suc:
  "(Suc n - 1) div samplesPerChunk + 1 =
     (if 0 < n \<and> n mod samplesPerChunk = 0 then (n - 1) div samplesPerChunk + 2
      else (n - 1) div samplesPerChunk + 1)"
proof (cases n)
  case 0
  then show ?thesis by simp
next
  case (Suc m)
  then show ?thesis by (simp add: samplesPerChunk_def div_Suc)
qed

lemma slot_unat:
  "unat ((x :: uint16) mod of_nat samplesPerChunk) = unat x mod samplesPerChunk"
  by (simp add: samplesPerChunk_def unat_mod)

lemma slot_uint:
  "uint ((x :: uint16) mod of_nat samplesPerChunk) = int (unat x mod samplesPerChunk)"
  by (simp only: uint_nat slot_unat)

lemma in_step_fixTypes: "in_step env (fixTypes s p) n = in_step env s n"
  by (simp add: in_step_def fixTypes_frame)

lemma healthy_fixTypes: "healthy env (a\<lparr>a_s := fixTypes (a_s a) p\<rparr>) n = healthy env a n"
  by (simp add: healthy_def bound_def parallel_fixTypes in_step_fixTypes fixTypes_frame)

lemma healthy_accepted:
  assumes "chunk_contract env" and "tree_contract env" and "healthy env a n"
    and "n < 65536" and "Append env a p = (None, a')"
  shows "healthy env a' (Suc n)"
proof -
  let ?s1 = "afterRollDecision env (a_s a) p"
  let ?slot = "numSamples (a_s a) mod of_nat samplesPerChunk"
  from assms(3) have b: "bound a" and par: "parallel (a_s a)" and st: "in_step env (a_s a) n"
    and cnt: "numSamples (a_s a) = of_nat n"
    by (simp_all add: healthy_def)
  from cnt assms(4) have un: "unat (numSamples (a_s a)) = n"
    by (simp add: unat_of_nat)
  note tl = Append_accepted_tail [OF assms(2) b par assms(5)]
  have par': "parallel (a_s a')"
    using assms(2) par assms(5) by (rule Append_parallel)
  have num: "numSamples (a_s a') = of_nat (Suc n)"
    using Append_core(1) [OF assms(2,5)] cnt by simp
  from assms(1) have fresh: "NumSamples env (NewDeltaChunk env) = 0"
    "NumSamples env (NewRLEChunk env) = 0"
    and next_slot: "\<And>c slot v. uint slot = NumSamples env c \<Longrightarrow>
        NumSamples env (AppendAt env c slot v) = NumSamples env c + 1"
    by (simp_all add: chunk_contract_def)
  have "in_step env (a_s a') (Suc n)"
  proof (cases "tailFull env (a_s a)")
    case True
    with st have "samplesPerChunk \<le> tailCount n"
      by (simp add: tailFull_def in_step_def)
    then have full: "0 < n" "n mod samplesPerChunk = 0"
      using tailCount_full by blast+
    have s1: "?s1 = rolled env (fixTypes (a_s a) p) (Timestamp (Meta p))"
      using True by (simp add: afterRollDecision_def)
    have tails: "chunk (last (timestamps ?s1)) = NewDeltaChunk env"
      "last (durations ?s1) = NewRLEChunk env" "last (periods ?s1) = NewRLEChunk env"
      "length (timestamps ?s1) = Suc (length (timestamps (a_s a)))"
      by (simp_all add: s1 rolled_def fixTypes_frame)
    have slot0: "uint ?slot = 0"
      using full(2) un by (simp add: slot_uint)
    have counts: "NumSamples env (chunk (last (timestamps (a_s a')))) = 1"
      "NumSamples env (last (durations (a_s a'))) = 1"
      "NumSamples env (last (periods (a_s a'))) = 1"
      using tl tails slot0 fresh next_slot by simp_all
    have "tailCount (Suc n) = 1"
      using full(2) by (simp add: tailCount_Suc)
    moreover have "length (timestamps (a_s a')) = (Suc n - 1) div samplesPerChunk + 1"
      using tl tails(4) st full unfolding chunks_Suc by (simp add: in_step_def)
    ultimately show ?thesis
      using counts by (simp add: in_step_def)
  next
    case False
    with st have "tailCount n < samplesPerChunk"
      by (simp add: tailFull_def in_step_def)
    then have room: "n mod samplesPerChunk = tailCount n"
      by (rule tailCount_room)
    have s1: "?s1 = fixTypes (a_s a) p"
      using False by (simp add: afterRollDecision_def)
    have slot: "uint ?slot = int (tailCount n)"
      using room un by (simp add: slot_uint)
    have counts: "NumSamples env (chunk (last (timestamps (a_s a')))) = int (tailCount n) + 1"
      "NumSamples env (last (durations (a_s a'))) = int (tailCount n) + 1"
      "NumSamples env (last (periods (a_s a'))) = int (tailCount n) + 1"
      using tl st slot next_slot by (simp_all add: s1 fixTypes_frame in_step_def)
    have tc: "tailCount (Suc n) = tailCount n + 1"
      using room by (simp add: tailCount_Suc)
    have "\<not> (0 < n \<and> n mod samplesPerChunk = 0)"
      using room \<open>tailCount n < samplesPerChunk\<close> by (auto simp: tailCount_def split: if_splits)
    then have "length (timestamps (a_s a')) = (Suc n - 1) div samplesPerChunk + 1"
      using tl st unfolding chunks_Suc by (simp add: s1 fixTypes_frame in_step_def)
    then show ?thesis
      using counts tc by (simp add: in_step_def)
  qed
  with tl par' num show ?thesis
    by (simp add: healthy_def)
qed

lemma validation_only_simps [simp]:
  "validation_only []"
  "validation_only (r # rs) \<longleftrightarrow>
     (case r of None \<Rightarrow> True | Some e \<Rightarrow> validation_error e) \<and> validation_only rs"
  by (simp_all add: validation_only_def)

lemma healthy_run:
  assumes "chunk_contract env" and "tree_contract env" and "healthy env a n"
    and "appendAll env a ps = (rs, a')" and "validation_only rs" and "n + accepted rs \<le> 65536"
  shows "healthy env a' (n + accepted rs)"
  using assms(3-)
proof (induction ps arbitrary: a rs n)
  case Nil
  then show ?case by simp
next
  case (Cons p ps)
  from Cons.prems(2) obtain r a1 rs' where
    step: "Append env a p = (r, a1)" and rest: "appendAll env a1 ps = (rs', a')" and rs: "rs = r # rs'"
    unfolding appendAll_Cons by blast
  show ?case
  proof (cases r)
    case None
    with Cons.prems(4) rs have n: "n < 65536" and le: "Suc n + accepted rs' \<le> 65536" by simp_all
    from step None have "healthy env a1 (Suc n)"
      using healthy_accepted [OF assms(1,2) Cons.prems(1) n] by simp
    from Cons.IH [OF this rest _ le] Cons.prems(3) rs None show ?thesis by simp
  next
    case (Some e)
    with Cons.prems(3) rs have ve: "validation_error e" and vo: "validation_only rs'" by simp_all
    from Append_rejected [OF assms(2) _ ve] step Some
    have "a1 = a\<lparr>a_s := fixTypes (a_s a) p\<rparr>" by simp
    with Cons.prems(1) have "healthy env a1 n" by (simp add: healthy_fixTypes)
    from Cons.IH [OF this rest vo] Cons.prems(4) rs Some show ?thesis by simp
  qed
qed

lemma healthy_fresh:
  assumes "chunk_contract env" and "Appender env (NewMemSeries env ls i) = Inr a0"
  shows "healthy env a0 0" and "a_s a0 = NewMemSeries env ls i"
proof -
  from assms(2) have a0: "a0 = \<lparr>a_s = NewMemSeries env ls i, a_timestamps = 0, a_duration = 0, a_periods = 0\<rparr>"
    by (auto simp: Appender_def NewMemSeries_def Let_def split: option.splits if_splits)
  then show "a_s a0 = NewMemSeries env ls i" by simp
  from assms(1) show "healthy env a0 0"
    by (simp add: a0 healthy_def bound_def parallel_def in_step_def tailCount_def
        NewMemSeries_def chunk_contract_def)
qed

lemma healthy_counts:
  assumes "healthy env a n"
  shows "length (timestamps (a_s a)) = (n - 1) div samplesPerChunk + 1"
    and "length (durations (a_s a)) = (n - 1) div samplesPerChunk + 1"
    and "length (periods (a_s a)) = (n - 1) div samplesPerChunk + 1"
    and "\<forall>(k, cs) \<in> set (flatValues (a_s a)). length cs = (n - 1) div samplesPerChunk + 1"
    and "\<forall>(k, cs) \<in> set (cumulativeValues (a_s a)). length cs = (n - 1) div samplesPerChunk + 1"
    and "NumSamples env (chunk (last (timestamps (a_s a)))) = int (tailCount n)"
    and "NumSamples env (last (durations (a_s a))) = int (tailCount n)"
    and "NumSamples env (last (periods (a_s a))) = int (tailCount n)"
  using assms by (auto simp: healthy_def parallel_def in_step_def)

lemma Append_accepted_shape:
  assumes "tree_contract env" and "Append env a p = (None, a')"
  shows "\<exists>s3. appendTree env (afterRollDecision env (a_s a) p) (Tree p) = (None, s3) \<and>
          flatValues (a_s a') = flatValues s3 \<and> cumulativeValues (a_s a') = cumulativeValues s3 \<and>
          length (timestamps (a_s a')) = length (timestamps (afterRollDecision env (a_s a) p)) \<and>
          timestamps (a_s a) \<noteq> []"
proof -
  let ?t = "Timestamp (Meta p)"
  from assms(2) obtain a2 s3 where
    ne: "timestamps (a_s a) \<noteq> []"
    and roll: "if tailFull env (a_s a)
           then rollChunks env (a\<lparr>a_s := fixTypes (a_s a) p\<rparr>) ?t = (None, a2)
           else a2 = a\<lparr>a_s := fixTypes (a_s a) p\<rparr>"
    and tree: "appendTree env (a_s a2) (Tree p) = (None, s3)"
    and res: "a' = a2\<lparr>a_s := bookkeeping (writeSample env a2 s3 p) ?t\<rparr>"
    by (rule Append_accepted)
  have a2: "a_s a2 = afterRollDecision env (a_s a) p"
  proof (cases "tailFull env (a_s a)")
    case True
    with roll have "rollChunks env (a\<lparr>a_s := fixTypes (a_s a) p\<rparr>) ?t = (None, a2)" by simp
    from rollChunks_None(1) [OF this] True show ?thesis
      by (simp add: afterRollDecision_def)
  next
    case False
    with roll show ?thesis by (simp add: afterRollDecision_def)
  qed
  from appendTree_frame(1) [OF assms(1) tree] tree ne show ?thesis
    by (simp add: a2 res bookkeeping_frame writeSample_frame)
qed

lemma slot_zero:
  assumes "unat (x :: uint16) mod samplesPerChunk = 0"
  shows "x mod of_nat samplesPerChunk = 0"
proof -
  from assms have "unat (x mod of_nat samplesPerChunk) = 0" by (simp add: slot_unat)
  then show ?thesis by (simp add: unat_eq_zero)
qed

lemma healthy_unat:
  assumes "healthy env a n" and "n < 65536"
  shows "unat (numSamples (a_s a)) = n"
  using assms by (simp add: healthy_def unat_of_nat)

lemma bound_fixTypes: "bound (a\<lparr>a_s := fixTypes (a_s a) p\<rparr>) = bound a"
  by (simp add: bound_def fixTypes_frame)

lemma steady_run:
  assumes "tree_contract env" and "bound a" and "parallel (a_s a)"
    and "appendAll env a ps = (rs, a')" and "validation_only rs"
  shows "bound a' \<and> parallel (a_s a')"
  using assms(2-)
proof (induction ps arbitrary: a rs)
  case Nil
  then show ?case by simp
next
  case (Cons p ps)
  from Cons.prems(3) obtain r a1 rs' where
    step: "Append env a p = (r, a1)" and rest: "appendAll env a1 ps = (rs', a')" and rs: "rs = r # rs'"
    unfolding appendAll_Cons by blast
  have "bound a1 \<and> parallel (a_s a1)"
  proof (cases r)
    case None
    with step have acc: "Append env a p = (None, a1)" by simp
    from Append_accepted_tail [OF assms(1) Cons.prems(1,2) acc]
      Append_parallel [OF assms(1) Cons.prems(2) acc]
    show ?thesis by simp
  next
    case (Some e)
    with Cons.prems(4) rs have ve: "validation_error e" by simp
    from Append_rejected [OF assms(1) _ ve] step Some
    have "a1 = a\<lparr>a_s := fixTypes (a_s a) p\<rparr>" by simp
    with Cons.prems(1,2) show ?thesis
      by (simp add: bound_fixTypes parallel_fixTypes)
  qed
  moreover from Cons.prems(4) rs have "validation_only rs'"
    by (simp split: option.splits)
  ultimately show ?case
    using Cons.IH [OF _ _ rest] by blast
qed

lemma steady_fresh:
  assumes "Appender env (NewMemSeries env ls i) = Inr a0"
  shows "bound a0" and "parallel (a_s a0)"
proof -
  from assms have a0: "a0 = \<lparr>a_s = NewMemSeries env ls i, a_timestamps = 0, a_duration = 0, a_periods = 0\<rparr>"
    by (auto simp: Appender_def NewMemSeries_def Let_def split: option.splits if_splits)
  show "bound a0" by (simp add: a0 bound_def NewMemSeries_def)
  show "parallel (a_s a0)" by (simp add: a0 parallel_def NewMemSeries_def)
qed








lemma keeps_columnsD:
  assumes "keeps_columns old new" and "(k, cs) \<in> set old"
  shows "\<exists>cs'. (k, cs') \<in> set new \<and> length cs' = length cs"
  using assms unfolding keeps_columns_def by fastforce

lemma rolled_columns:
  assumes "\<forall>(k, cs) \<in> set m. length cs = n" and "NumSamples env (NewXORChunk env) = 0"
  shows "\<forall>(k, cs) \<in> set (map (\<lambda>(k, cs). (k, cs @ [NewXORChunk env])) m).
           length cs = Suc n \<and> NumSamples env (last cs) = 0"
  using assms by auto

lemma kept_after_roll:
  assumes "keeps_columns (map (\<lambda>(k, cs). (k, cs @ [c])) m) new"
    and "\<forall>(k, cs) \<in> set m. length cs = n"
  shows "\<forall>(k, cs) \<in> set m. \<exists>cs'. (k, cs') \<in> set new \<and> length cs' = Suc n"
proof clarify
  fix k cs assume mem: "(k, cs) \<in> set m"
  then have "(k, cs @ [c]) \<in> set (map (\<lambda>(k, cs). (k, cs @ [c])) m)" by force
  from keeps_columnsD [OF assms(1) this] mem assms(2)
  show "\<exists>cs'. (k, cs') \<in> set new \<and> length cs' = Suc n" by auto
qed

subsection \<open>The implementation of the collaborators meets the contracts\<close>

lemma set_setColumn: "set (setColumn k v m) \<subseteq> insert (k, v) (set m)"
  by (induction m) (auto split: if_splits)

lemma column_rule_setColumn:
  assumes "length v = n \<or> (\<exists>cs0. (k, cs0) \<in> set m \<and> length cs0 = length v)"
  shows "column_rule n m (setColumn k v m)"
  unfolding column_rule_def
proof clarify
  fix k' cs
  assume mem: "(k', cs) \<in> set (setColumn k v m)"
    and no: "\<not> (\<exists>cs0. (k', cs0) \<in> set m \<and> length cs0 = length cs)"
  from mem set_setColumn [of k v m] have "(k', cs) = (k, v) \<or> (k', cs) \<in> set m" by auto
  with no have "k' = k" "cs = v" by auto
  with assms no show "length cs = n" by auto
qed

lemma column_rule_insertValue: "column_rule n m (insertValue n slot k v m)"
proof (cases "map_of m k")
  case None
  then show ?thesis
    by (auto simp: insertValue_def Let_def intro!: column_rule_setColumn)
next
  case (Some cs0)
  then have mem: "(k, cs0) \<in> set m" by (rule map_of_SomeD)
  show ?thesis
  proof (cases "cs0 = []")
    case True
    with Some mem show ?thesis
      by (auto simp: insertValue_def Let_def intro!: column_rule_setColumn)
  next
    case False
    then have "length (butlast cs0 @ [raw_AppendAt (last cs0) slot v]) = length cs0" by simp
    with mem have "\<exists>c. (k, c) \<in> set m \<and>
        length c = length (butlast cs0 @ [raw_AppendAt (last cs0) slot v])" by metis
    with Some False show ?thesis
      by (simp add: insertValue_def Let_def column_rule_setColumn)
  qed
qed

lemma same_frame_refl: "same_frame s s"
  by (simp add: same_frame_def)

lemma fold_insertNode:
  "same_frame s (fold (insertNode slot) tree s) \<and>
   column_rule (length (timestamps s)) (flatValues s) (flatValues (fold (insertNode slot) tree s)) \<and>
   column_rule (length (timestamps s)) (cumulativeValues s)
     (cumulativeValues (fold (insertNode slot) tree s))"
proof (induction tree arbitrary: s)
  case Nil
  show ?case by (simp add: same_frame_refl column_rule_refl)
next
  case (Cons nd tree)
  obtain k f c where nd: "nd = (k, f, c)" by (cases nd)
  let ?s1 = "insertNode slot nd s"
  have s1: "?s1 = s\<lparr>flatValues := insertValue (length (timestamps s)) slot k f (flatValues s),
                 cumulativeValues :=
                   insertValue (length (timestamps s)) slot k c (cumulativeValues s)\<rparr>"
    by (simp add: insertNode_def nd)
  have ts: "timestamps ?s1 = timestamps s" by (simp add: s1)
  have f1: "column_rule (length (timestamps s)) (flatValues s) (flatValues ?s1)"
    by (simp add: s1 column_rule_insertValue)
  have c1: "column_rule (length (timestamps s)) (cumulativeValues s) (cumulativeValues ?s1)"
    by (simp add: s1 column_rule_insertValue)
  have fr1: "same_frame s ?s1"
    by (simp add: s1 same_frame_def)
  from Cons.IH [of ?s1] have
    fr2: "same_frame ?s1 (fold (insertNode slot) tree ?s1)" and
    f2: "column_rule (length (timestamps s)) (flatValues ?s1) (flatValues (fold (insertNode slot) tree ?s1))" and
    c2: "column_rule (length (timestamps s)) (cumulativeValues ?s1) (cumulativeValues (fold (insertNode slot) tree ?s1))"
    by (simp_all add: ts)
  have fr: "same_frame s (fold (insertNode slot) tree ?s1)"
    using fr1 fr2 by (simp add: same_frame_def)
  show ?case
    using fr column_rule_trans [OF f1 f2] column_rule_trans [OF c1 c2] by simp
qed

lemma raw_tree_contract: "tree_contract raw_env"
  unfolding tree_contract_def
proof (intro allI impI)
  fix slot and t :: "string rawTree" and s s' :: "(string, rawChunk, unit) MemSeries" and e
  assume "Insert raw_env slot t s = (e, s')"
  then have e: "e = None" and s': "s' = fold (insertNode slot) t s"
    by (simp_all add: raw_env_def raw_Insert_def)
  from fold_insertNode [of s slot t] show "same_frame s s' \<and>
       (case e of
          Some err \<Rightarrow> \<not> validation_error err
        | None \<Rightarrow>
            column_rule (length (timestamps s)) (flatValues s) (flatValues s') \<and>
            column_rule (length (timestamps s)) (cumulativeValues s) (cumulativeValues s'))"
    by (simp add: e s')
qed

lemma keeps_columns_refl: "keeps_columns m m"
  by (auto simp: keeps_columns_def)

lemma keeps_columns_trans:
  assumes "keeps_columns old mid" and "keeps_columns mid new"
  shows "keeps_columns old new"
  using assms unfolding keeps_columns_def by fastforce

lemma setColumn_mem: "(k, v) \<in> set (setColumn k v m)"
  by (induction m) auto

lemma setColumn_keeps:
  "(k', cs) \<in> set m \<Longrightarrow>
     (k', cs) \<in> set (setColumn k v m) \<or> (k' = k \<and> map_of m k = Some cs)"
  by (induction m) auto

lemma keeps_columns_setColumn:
  assumes "\<And>cs0. map_of m k = Some cs0 \<Longrightarrow> length v = length cs0"
  shows "keeps_columns m (setColumn k v m)"
  unfolding keeps_columns_def
proof clarify
  fix k' cs assume mem: "(k', cs) \<in> set m"
  from setColumn_keeps [OF mem, of k v]
  show "\<exists>cs'. (k', cs') \<in> set (setColumn k v m) \<and> length cs' = length cs"
  proof
    assume "(k', cs) \<in> set (setColumn k v m)"
    then show ?thesis by auto
  next
    assume "k' = k \<and> map_of m k = Some cs"
    with assms [of cs] setColumn_mem [of k v m] show ?thesis by auto
  qed
qed

lemma keeps_columns_insertValue: "keeps_columns m (insertValue n slot k v m)"
proof (cases "map_of m k")
  case None
  then show ?thesis
    by (auto simp: insertValue_def Let_def intro!: keeps_columns_setColumn)
next
  case (Some cs0)
  then show ?thesis
    by (cases "cs0 = []") (auto simp: insertValue_def Let_def intro!: keeps_columns_setColumn)
qed

lemma fold_insertNode_keeps:
  "keeps_columns (flatValues s) (flatValues (fold (insertNode slot) tree s)) \<and>
   keeps_columns (cumulativeValues s) (cumulativeValues (fold (insertNode slot) tree s))"
proof (induction tree arbitrary: s)
  case Nil
  show ?case by (simp add: keeps_columns_refl)
next
  case (Cons nd tree)
  obtain k f c where nd: "nd = (k, f, c)" by (cases nd)
  let ?s1 = "insertNode slot nd s"
  have f1: "keeps_columns (flatValues s) (flatValues ?s1)"
    and c1: "keeps_columns (cumulativeValues s) (cumulativeValues ?s1)"
    by (simp_all add: insertNode_def nd keeps_columns_insertValue)
  from Cons.IH [of ?s1] keeps_columns_trans [OF f1] keeps_columns_trans [OF c1]
  show ?case by simp
qed

lemma raw_keeps_keys: "tree_keeps_keys raw_env"
  by (simp add: tree_keeps_keys_def raw_env_def raw_Insert_def fold_insertNode_keeps)

lemma raw_next_slot:
  assumes "uint (slot :: uint16) = int (length (c :: rawChunk))"
  shows "length (raw_AppendAt c slot v) = length c + 1"
proof -
  from assms have "unat slot = length c" by (simp only: unat_eq_nat_uint nat_int)
  then show ?thesis by (simp add: raw_AppendAt_def)
qed

lemma raw_chunk_contract: "chunk_contract raw_env"
  by (simp add: chunk_contract_def raw_env_def raw_next_slot)

lemma raw_reliable: "reliable raw_env"
  by (simp add: reliable_def raw_env_def raw_Insert_def)

lemma sint_of_nat64:
  assumes "n < 2 ^ 63"
  shows "sint (of_nat n :: 64 word) = int n"
proof -
  have "(of_nat n :: 64 word) = word_of_int (int n)" by simp
  then have "sint (of_nat n :: 64 word) = signed_take_bit 63 (int n)"
    by (simp only: sint_sbintrunc') simp
  also have "\<dots> = int n"
    using assms by (intro signed_take_bit_int_eq_self) (simp_all add: order_less_le_trans)
  finally show ?thesis .
qed

lemma ramp_sorted:
  assumes "n < 2 ^ 63"
  shows "sorted_wrt (\<lambda>p q. Timestamp (Meta p) <s Timestamp (Meta q)) (ramp m n)"
proof -
  have "sorted_wrt (\<lambda>j k. (of_nat j :: int64) <s of_nat k) [m..<Suc n]"
  proof (rule sorted_wrt_mono_rel [OF _ sorted_wrt_upt])
    fix j k assume "j \<in> set [m..<Suc n]" "k \<in> set [m..<Suc n]" "j < k"
    then have "j < k" "j \<le> n" "k \<le> n" by auto
    with assms have "j < 2 ^ 63" "k < 2 ^ 63" by linarith+
    with \<open>j < k\<close> show "(of_nat j :: int64) <s of_nat k"
      by (simp only: word_sless_alt sint_of_nat64 of_nat_less_iff)
  qed
  then show ?thesis
    by (simp add: ramp_def sorted_wrt_map sample_def del: upt_Suc)
qed

lemma ramp_each:
  assumes "n < 2 ^ 63" and "sint t0 < int m" and "p \<in> set (ramp m n)"
  shows "t0 <s Timestamp (Meta p) \<and> PeriodType (Meta p) = cpu \<and> SampleType (Meta p) = cpu"
proof -
  from assms(3) obtain k where k: "m \<le> k" "k \<le> n" and p: "p = sample cpu cpu (of_nat k) []"
    by (auto simp: ramp_def simp del: upt_Suc)
  from k assms(1) have "k < 2 ^ 63" by linarith
  then have "sint (of_nat k :: int64) = int k" by (rule sint_of_nat64)
  with assms(2) k show ?thesis
    by (simp add: p sample_def word_sless_alt)
qed

lemma ramp_accepted:
  assumes "n < 2 ^ 63"
  shows "fst (appendAll raw_env appender0 (ramp 1 n)) = replicate n None"
proof -
  have each: "\<forall>p \<in> set (ramp 1 n). maxTime (a_s appender0) <s Timestamp (Meta p) \<and>
                       PeriodType (Meta p) = cpu \<and> SampleType (Meta p) = cpu"
    using ramp_each [OF assms, of "maxTime (a_s appender0)" 1]
    by (simp add: appender0_def series0_def NewMemSeries_def)
  have "fst (appendAll raw_env appender0 (ramp 1 n)) = replicate (length (ramp 1 n)) None"
    by (rule appendAll_accepts [OF raw_tree_contract raw_reliable _ ramp_sorted [OF assms] each])
       (simp_all add: appender0_def series0_def NewMemSeries_def)
  then show ?thesis by (simp add: ramp_def)
qed

lemma length_ramp: "length (ramp m n) = Suc n - m"
  by (simp add: ramp_def del: upt_Suc)

lemma validation_only_replicate: "validation_only (replicate n None)"
  by (simp add: validation_only_def)

lemma accepted_replicate: "accepted (replicate n None) = n"
  by (simp add: accepted_def)

lemma raw_silent_run:
  assumes "\<forall>p \<in> set ps. Tree p = []"
    and "appendAll raw_env a ps = (replicate (length ps) None, a')"
    and "flatValues (a_s a) = [(k, c # replicate (length (timestamps (a_s a)) - 1) [])]"
  shows "flatValues (a_s a') = [(k, c # replicate (length (timestamps (a_s a')) - 1) [])]"
  using assms
proof (induction ps arbitrary: a)
  case Nil
  then show ?case by simp
next
  case (Cons p ps)
  from Cons.prems(2) obtain a1 where
    step: "Append raw_env a p = (None, a1)"
    and rest: "appendAll raw_env a1 ps = (replicate (length ps) None, a')"
    unfolding appendAll_Cons by auto
  let ?s1 = "afterRollDecision raw_env (a_s a) p"
  from Append_accepted_shape [OF raw_tree_contract step] obtain s3 where
    tree: "appendTree raw_env ?s1 (Tree p) = (None, s3)"
    and flat: "flatValues (a_s a1) = flatValues s3"
    and len: "length (timestamps (a_s a1)) = length (timestamps ?s1)"
    and ne: "timestamps (a_s a) \<noteq> []"
    by blast
  from Cons.prems(1) have "Tree p = []" by simp
  with tree have "flatValues s3 = flatValues ?s1"
    by (auto simp: appendTree_def raw_env_def raw_Insert_def Let_def split: if_splits)
  with flat have flat1: "flatValues (a_s a1) = flatValues ?s1" by simp
  have "flatValues (a_s a1) = [(k, c # replicate (length (timestamps (a_s a1)) - 1) [])]"
  proof (cases "tailFull raw_env (a_s a)")
    case True
    then have "flatValues ?s1 = [(k, (c # replicate (length (timestamps (a_s a)) - 1) []) @ [[]])]"
      and "length (timestamps ?s1) = Suc (length (timestamps (a_s a)))"
      using Cons.prems(3)
      by (simp_all add: afterRollDecision_def rolled_def fixTypes_frame raw_env_def)
    with flat1 len ne show ?thesis
      by (cases "timestamps (a_s a)") (simp_all add: replicate_append_same)
  next
    case False
    then have "flatValues ?s1 = flatValues (a_s a)"
      and "length (timestamps ?s1) = length (timestamps (a_s a))"
      by (simp_all add: afterRollDecision_def fixTypes_frame)
    with flat1 len Cons.prems(3) show ?thesis by simp
  qed
  from Cons.IH [OF _ rest this] Cons.prems(1) show ?case by simp
qed

lemma raw_empty_run:
  assumes "\<forall>p \<in> set ps. Tree p = []"
    and "appendAll raw_env a ps = (replicate (length ps) None, a')"
    and "flatValues (a_s a) = []" and "cumulativeValues (a_s a) = []"
  shows "flatValues (a_s a') = [] \<and> cumulativeValues (a_s a') = []"
  using assms
proof (induction ps arbitrary: a)
  case Nil
  then show ?case by simp
next
  case (Cons p ps)
  from Cons.prems(2) obtain a1 where
    step: "Append raw_env a p = (None, a1)"
    and rest: "appendAll raw_env a1 ps = (replicate (length ps) None, a')"
    unfolding appendAll_Cons by auto
  let ?s1 = "afterRollDecision raw_env (a_s a) p"
  from Append_accepted_shape [OF raw_tree_contract step] obtain s3 where
    tree: "appendTree raw_env ?s1 (Tree p) = (None, s3)"
    and flat: "flatValues (a_s a1) = flatValues s3"
    and cumu: "cumulativeValues (a_s a1) = cumulativeValues s3"
    by blast
  from Cons.prems(1) have "Tree p = []" by simp
  with tree have "flatValues s3 = flatValues ?s1" "cumulativeValues s3 = cumulativeValues ?s1"
    by (auto simp: appendTree_def raw_env_def raw_Insert_def Let_def split: if_splits)
  moreover have "flatValues ?s1 = []" "cumulativeValues ?s1 = []"
    using Cons.prems(3,4) by (simp_all add: afterRollDecision_def rolled_def fixTypes_frame)
  ultimately have "flatValues (a_s a1) = []" "cumulativeValues (a_s a1) = []"
    using flat cumu by simp_all
  from Cons.IH [OF _ rest this] Cons.prems(1) show ?case by simp
qed

lemma ramp_append:
  assumes "m \<le> Suc k" and "k \<le> n"
  shows "ramp m n = ramp m k @ ramp (Suc k) n"
proof -
  from assms have "[m..<Suc n] = [m..<Suc k] @ [Suc k..<Suc n]"
    by (metis Suc_le_mono upt_add_eq_append le_Suc_ex)
  then show ?thesis
    by (simp only: ramp_def map_append)
qed

lemma raw_wrapped_step:
  assumes "bound a" and "parallel (a_s a)"
    and "numSamples (a_s a) = of_nat k"
    and "length (chunk (last (timestamps (a_s a)))) = d + k" and "d + k < samplesPerChunk"
    and "Append raw_env a p = (None, a')"
  shows "bound a' \<and> parallel (a_s a') \<and> numSamples (a_s a') = of_nat (Suc k) \<and>
         length (chunk (last (timestamps (a_s a')))) = d + Suc k \<and>
         length (timestamps (a_s a')) = length (timestamps (a_s a))"
proof -
  note tl = Append_accepted_tail [OF raw_tree_contract assms(1,2,6)]
  have nf: "\<not> tailFull raw_env (a_s a)"
    using assms(4,5) by (simp add: tailFull_def raw_env_def)
  then have s1: "afterRollDecision raw_env (a_s a) p = fixTypes (a_s a) p"
    by (simp add: afterRollDecision_def)
  from assms(5) have k: "k < 120" by (simp add: samplesPerChunk_def)
  then have "unat (of_nat k :: uint16) = k" by (simp add: unat_of_nat)
  with k have "unat (numSamples (a_s a)) mod samplesPerChunk = k"
    by (simp add: assms(3) samplesPerChunk_def)
  then have slot: "unat (numSamples (a_s a) mod of_nat samplesPerChunk) = k"
    by (simp only: slot_unat)
  have app: "AppendAt raw_env = raw_AppendAt" by (simp add: raw_env_def)
  from tl have "chunk (last (timestamps (a_s a'))) =
      raw_AppendAt (chunk (last (timestamps (a_s a))))
        (numSamples (a_s a) mod of_nat samplesPerChunk) (Timestamp (Meta p))"
    by (simp add: s1 fixTypes_frame app)
  then have len: "length (chunk (last (timestamps (a_s a')))) = d + Suc k"
    using slot assms(4) by (simp add: raw_AppendAt_def)
  have num: "numSamples (a_s a') = of_nat (Suc k)"
    using Append_core(1) [OF raw_tree_contract assms(6)] assms(3) by simp
  from tl len num Append_parallel [OF raw_tree_contract assms(2,6)] show ?thesis
    by (simp add: s1 fixTypes_frame)
qed

lemma raw_wrapped_run:
  assumes "bound a" and "parallel (a_s a)"
    and "numSamples (a_s a) = of_nat k"
    and "length (chunk (last (timestamps (a_s a)))) = d + k"
    and "d + k + length ps \<le> samplesPerChunk"
    and "appendAll raw_env a ps = (replicate (length ps) None, a')"
  shows "bound a' \<and> parallel (a_s a') \<and> numSamples (a_s a') = of_nat (k + length ps) \<and>
         length (chunk (last (timestamps (a_s a')))) = d + k + length ps \<and>
         length (timestamps (a_s a')) = length (timestamps (a_s a))"
  using assms
proof (induction ps arbitrary: a k)
  case Nil
  then show ?case by simp
next
  case (Cons p ps)
  from Cons.prems(6) obtain a1 where
    step: "Append raw_env a p = (None, a1)"
    and rest: "appendAll raw_env a1 ps = (replicate (length ps) None, a')"
    unfolding appendAll_Cons by auto
  from Cons.prems(5) have room: "d + k < samplesPerChunk" by simp
  from raw_wrapped_step [OF Cons.prems(1-4) room step]
  have a1: "bound a1" "parallel (a_s a1)" "numSamples (a_s a1) = of_nat (Suc k)"
    "length (chunk (last (timestamps (a_s a1)))) = d + Suc k"
    "length (timestamps (a_s a1)) = length (timestamps (a_s a))"
    by simp_all
  from Cons.prems(5) have "d + Suc k + length ps \<le> samplesPerChunk" by simp
  from Cons.IH [OF a1(1-4) this rest] a1(5) show ?case by simp
qed

subsection \<open>The examples, evaluated\<close>

lemmas model_defs = Append_def fixTypes_def rollChunks_def appendTree_def writeSample_def
  bookkeeping_def equalValueType_def samplesPerChunk_def

lemmas raw_defs = raw_env_def raw_Insert_def insertNode_def insertValue_def raw_AppendAt_def
  series0_def appender0_def NewMemSeries_def sample_def cpu_def alloc_def zeroValueType_def
  MaxInt64_def MinInt64_def word_sle_eq word_sless_alt

lemma appender0_made: "Appender raw_env series0 = Inr appender0"
  by (simp add: Appender_def series0_def NewMemSeries_def raw_env_def appender0_def)

lemma append_first:
  "Append raw_env appender0 (sample cpu cpu 100 [(''main'', 1, 2)]) = (None, appender1)"
  by (simp add: appender1_def model_defs raw_defs Let_def)

lemma append_out_of_order:
  "Append raw_env appender1 (sample cpu cpu 50 [(''main'', 3, 4)]) =
     (Some ErrOutOfOrderSample, appender1)"
  by (simp add: appender1_def model_defs raw_defs Let_def)

lemma append_other_type:
  "Append raw_env appender1 (sample cpu alloc 200 []) = (Some ErrSampleTypeMismatch, appender1)"
  by (simp add: appender1_def model_defs raw_defs Let_def)

lemma append_second:
  "Append raw_env appender1 (sample cpu cpu 200 [(''f'', 3, 4)]) = (None, appender2)"
  by (simp add: appender1_def appender2_def model_defs raw_defs Let_def)

lemma scenarioA_run:
  "appendAll raw_env appender0 scenarioA =
     ([None, Some ErrOutOfOrderSample, Some ErrSampleTypeMismatch, None], appender2)"
  by (simp add: scenarioA_def append_first append_out_of_order append_other_type append_second)

lemma later_run:
  "appendAll raw_env appender2 [sample cpu cpu 300 [], sample cpu cpu 7 []] =
     ([None, Some ErrOutOfOrderSample], appender3)"
  by (simp add: appender2_def appender3_def model_defs raw_defs Let_def)

lemma parallel_appender1: "parallel (a_s appender1)"
  by (simp add: appender1_def parallel_def series0_def NewMemSeries_def)

lemma appender0_fresh: "Appender raw_env (NewMemSeries raw_env [(''job'', ''a'')] 1) = Inr appender0"
  using appender0_made by (simp add: series0_def)

lemma run_lead_accepted:
  assumes "n < 2 ^ 63"
  shows "fst (appendAll raw_env appender0 (sample cpu cpu 100 tr # ramp 101 n)) =
           None # replicate (Suc n - 101) None"
proof -
  let ?ps = "sample cpu cpu 100 tr # ramp 101 n"
  have "sint (100 :: int64) < int 101" by simp
  note r100 = ramp_each [OF assms this]
  have "sint (maxTime (a_s appender0)) < int 101"
    by (simp add: appender0_def series0_def NewMemSeries_def)
  note r0 = ramp_each [OF assms this]
  have sorted: "sorted_wrt (\<lambda>p q. Timestamp (Meta p) <s Timestamp (Meta q)) ?ps"
    using ramp_sorted [OF assms, of 101] r100 by (auto simp: sample_def)
  have each: "\<forall>p \<in> set ?ps. maxTime (a_s appender0) <s Timestamp (Meta p) \<and>
                       PeriodType (Meta p) = cpu \<and> SampleType (Meta p) = cpu"
    using r0 by (auto simp: sample_def appender0_def series0_def NewMemSeries_def word_sless_alt)
  have "fst (appendAll raw_env appender0 ?ps) = replicate (length ?ps) None"
    by (rule appendAll_accepts [OF raw_tree_contract raw_reliable _ sorted each])
       (simp_all add: appender0_def series0_def NewMemSeries_def)
  moreover have "replicate (length ?ps) None = None # replicate (Suc n - 101) (None :: error option)"
    by (simp add: length_ramp)
  ultimately show ?thesis by (simp only:)
qed

lemma run121_accepted: "fst (appendAll raw_env appender0 run121) = None # replicate 120 None"
  using run_lead_accepted [of 220 "[(''main'', 1, 2)]"] by (simp add: run121_def)

lemma run120_accepted: "fst (appendAll raw_env appender0 run120) = None # replicate 119 None"
  using run_lead_accepted [of 219 "[(''main'', 1, 2)]"] by (simp add: run120_def)

lemma ramp_below:
  assumes "n < 2 ^ 63" and "p \<in> set (ramp m n)"
  shows "sint (Timestamp (Meta p)) \<le> int n"
proof -
  from assms(2) obtain k where k: "m \<le> k" "k \<le> n" and p: "p = sample cpu cpu (of_nat k) []"
    by (auto simp: ramp_def simp del: upt_Suc)
  with assms(1) have "k < 2 ^ 63" by linarith
  then have "sint (of_nat k :: int64) = int k" by (rule sint_of_nat64)
  with k show ?thesis by (simp add: p sample_def)
qed

lemma last_ramp: "m \<le> n \<Longrightarrow> last (ramp m n) = sample cpu cpu (of_nat n) []"
  by (simp add: ramp_def)

lemma run120_then_sample121:
  "fst (appendAll raw_env appender0 (run120 @ [sample121])) = replicate 121 None"
proof -
  let ?ps = "run120 @ [sample121]"
  have b: "(219 :: nat) < 2 ^ 63" by simp
  have "sint (100 :: int64) < int 101" by simp
  note r100 = ramp_each [OF b this]
  have "sint (maxTime (a_s appender0)) < int 101"
    by (simp add: appender0_def series0_def NewMemSeries_def)
  note r0 = ramp_each [OF b this]
  have top: "Timestamp (Meta p) <s 220" if "p \<in> set (ramp 101 219)" for p
    using ramp_below [OF b that] by (simp add: word_sless_alt)
  have sorted: "sorted_wrt (\<lambda>p q. Timestamp (Meta p) <s Timestamp (Meta q)) ?ps"
    using ramp_sorted [OF b, of 101] r100 top
    by (auto simp: run120_def sample121_def sorted_wrt_append sample_def)
  have each: "\<forall>p \<in> set ?ps. maxTime (a_s appender0) <s Timestamp (Meta p) \<and>
                       PeriodType (Meta p) = cpu \<and> SampleType (Meta p) = cpu"
    using r0
    by (auto simp: run120_def sample121_def sample_def appender0_def series0_def NewMemSeries_def
        word_sless_alt)
  have "fst (appendAll raw_env appender0 ?ps) = replicate (length ?ps) None"
    by (rule appendAll_accepts [OF raw_tree_contract raw_reliable _ sorted each])
       (simp_all add: appender0_def series0_def NewMemSeries_def)
  moreover have "length ?ps = 121" by (simp add: run120_def length_ramp)
  ultimately show ?thesis by (simp only:)
qed

lemma sample121_accepted: "fst (Append raw_env appender120 sample121) = None"
proof -
  obtain rs a where run: "appendAll raw_env appender0 run120 = (rs, a)"
    by (cases "appendAll raw_env appender0 run120")
  then have a: "appender120 = a" by (simp add: appender120_def)
  obtain r a' where step: "Append raw_env a sample121 = (r, a')"
    by (cases "Append raw_env a sample121")
  from run120_then_sample121 have "rs @ [r] = replicate 121 None"
    by (simp add: appendAll_append run step)
  then have "last (rs @ [r]) = last (replicate 121 (None :: error option))" by simp
  then have "r = None" by simp
  with step a show ?thesis by simp
qed

lemma flat_appender120: "flatValues (a_s appender120) = [(''main'', [[1]])]"
  and length_appender120: "length (timestamps (a_s appender120)) = 1"
proof -
  obtain rs a where run: "appendAll raw_env appender0 run120 = (rs, a)"
    by (cases "appendAll raw_env appender0 run120")
  then have a: "appender120 = a" by (simp add: appender120_def)
  from run run120_accepted have rs: "rs = None # replicate 119 None" by simp
  then have vo: "validation_only rs" and acc: "accepted rs = 120"
    by (simp_all add: validation_only_replicate accepted_replicate)
  from healthy_run [OF raw_chunk_contract raw_tree_contract
      healthy_fresh(1) [OF raw_chunk_contract appender0_fresh] run vo] acc
  have "healthy raw_env a 120" by simp
  then have len: "length (timestamps (a_s a)) = 1"
    using healthy_counts(1) by (fastforce simp: samplesPerChunk_def)
  from run rs have rest: "appendAll raw_env appender1 (ramp 101 219) =
      (replicate (length (ramp 101 219)) None, a)"
    by (auto simp: run120_def appendAll_Cons append_first length_ramp simp del: appendAll.simps)
  have "flatValues (a_s a) = [(''main'', [1] # replicate (length (timestamps (a_s a)) - 1) [])]"
    by (rule raw_silent_run [OF _ rest]) (auto simp: ramp_def sample_def appender1_def simp del: upt_Suc)
  with len show "flatValues (a_s appender120) = [(''main'', [[1]])]"
    and "length (timestamps (a_s appender120)) = 1"
    by (simp_all add: a)
qed

lemma ramp65536: "appendAll raw_env appender0 (ramp 1 65536) = (replicate 65536 None, appender65536)"
  using ramp_accepted [of 65536] by (simp add: appender65536_def prod_eq_iff)

lemma appender65536_facts:
  "maxTime (a_s appender65536) = 65536" "timestamps (a_s appender65536) \<noteq> []"
  "numSamples (a_s appender65536) = 0" "periodType (a_s appender65536) = cpu"
proof -
  have len: "length (ramp 1 65536) = 65536" by (simp add: length_ramp)
  from appendAll_core [OF raw_tree_contract ramp65536]
  have core: "numSamples (a_s appender65536) = 0"
    "maxTime (a_s appender65536) =
       (if acceptedSamples (replicate 65536 None) (ramp 1 65536) = [] then maxTime (a_s appender0)
        else Timestamp (Meta (last (acceptedSamples (replicate 65536 None) (ramp 1 65536)))))"
    by (simp_all add: accepted_replicate appender0_def series0_def NewMemSeries_def)
  have acc: "acceptedSamples (replicate 65536 None) (ramp 1 65536) = ramp 1 65536"
    using acceptedSamples_all [of "ramp 1 65536"] by (simp only: len)
  have ne: "ramp 1 65536 \<noteq> []" using len by auto
  have "last (ramp 1 65536) = sample cpu cpu (of_nat 65536) []"
    by (rule last_ramp) simp
  with core(2) ne have "maxTime (a_s appender65536) =
      Timestamp (Meta (sample cpu cpu (of_nat 65536) [] :: string rawTree Profile))"
    unfolding acc by (simp only: if_False)
  then show "maxTime (a_s appender65536) = 65536"
    by (simp add: sample_def)
  show "numSamples (a_s appender65536) = 0" by (rule core(1))
  from healthy_run [OF raw_chunk_contract raw_tree_contract
      healthy_fresh(1) [OF raw_chunk_contract appender0_fresh] ramp65536]
  have "healthy raw_env appender65536 65536"
    by (simp add: validation_only_replicate accepted_replicate)
  then have "length (timestamps (a_s appender65536)) = 547"
    using healthy_counts(1) by (fastforce simp: samplesPerChunk_def)
  then show "timestamps (a_s appender65536) \<noteq> []" by auto
  have "\<forall>p \<in> set (ramp 1 65536). PeriodType (Meta p) = cpu \<and> SampleType (Meta p) = cpu"
    by (auto simp: ramp_def sample_def simp del: upt_Suc)
  from appendAll_tags [OF raw_tree_contract ramp65536 this] ne
  show "periodType (a_s appender65536) = cpu"
    by (simp add: appender0_def series0_def NewMemSeries_def)
qed

lemma sample65537_accepted: "fst (Append raw_env appender65536 sample65537) = None"
proof -
  have late: "\<not> Timestamp (Meta sample65537) \<le>s maxTime (a_s appender65536)"
    by (simp add: appender65536_facts sample65537_def sample_def word_sle_eq)
  from Append_accepts [OF raw_tree_contract raw_reliable appender65536_facts(2) late]
    appender65536_facts(3)
  show ?thesis by auto
qed

lemma appender65536_shape:
  "bound appender65536" "parallel (a_s appender65536)"
  "length (timestamps (a_s appender65536)) = 547"
  "length (chunk (last (timestamps (a_s appender65536)))) = 16"
  "flatValues (a_s appender65536) = []" "cumulativeValues (a_s appender65536) = []"
  "sampleType (a_s appender65536) = cpu"
proof -
  from healthy_run [OF raw_chunk_contract raw_tree_contract
      healthy_fresh(1) [OF raw_chunk_contract appender0_fresh] ramp65536]
  have h: "healthy raw_env appender65536 65536"
    by (simp add: validation_only_replicate accepted_replicate)
  then show "bound appender65536" "parallel (a_s appender65536)"
    by (simp_all add: healthy_def)
  note c = healthy_counts [OF h]
  from c(1) show "length (timestamps (a_s appender65536)) = 547"
    by (simp add: samplesPerChunk_def)
  have ns: "NumSamples raw_env = (\<lambda>c. int (length c))" by (simp add: raw_env_def)
  from c(6) show "length (chunk (last (timestamps (a_s appender65536)))) = 16"
    by (simp add: ns tailCount_def samplesPerChunk_def)
  have len: "replicate 65536 None = replicate (length (ramp 1 65536)) (None :: error option)"
    by (simp add: length_ramp)
  have empty: "\<forall>p \<in> set (ramp 1 65536). Tree p = []"
    by (auto simp: ramp_def sample_def simp del: upt_Suc)
  have "flatValues (a_s appender65536) = [] \<and> cumulativeValues (a_s appender65536) = []"
    by (rule raw_empty_run [OF empty ramp65536 [unfolded len]])
       (simp_all add: appender0_def series0_def NewMemSeries_def)
  then show "flatValues (a_s appender65536) = []" "cumulativeValues (a_s appender65536) = []"
    by simp_all
  have "\<forall>p \<in> set (ramp 1 65536). PeriodType (Meta p) = cpu \<and> SampleType (Meta p) = cpu"
    by (auto simp: ramp_def sample_def simp del: upt_Suc)
  moreover have "ramp 1 65536 \<noteq> []"
    using length_ramp [of 1 65536] by auto
  ultimately show "sampleType (a_s appender65536) = cpu"
    using appendAll_tags [OF raw_tree_contract ramp65536]
    by (simp add: appender0_def series0_def NewMemSeries_def)
qed



lemma ramp65640: "appendAll raw_env appender0 (ramp 1 65640) = (replicate 65640 None, appender65640)"
  using ramp_accepted [of 65640] by (simp add: appender65640_def prod_eq_iff)

lemma ramp_after_wrap:
  "appendAll raw_env appender65536 (ramp 65537 65640) =
     (replicate (length (ramp 65537 65640)) None, appender65640)"
proof -
  have split: "ramp 1 65640 = ramp 1 65536 @ ramp 65537 65640"
    using ramp_append [of 1 65536 65640] by simp
  obtain rs a where rest: "appendAll raw_env appender65536 (ramp 65537 65640) = (rs, a)"
    by (cases "appendAll raw_env appender65536 (ramp 65537 65640)")
  have "appendAll raw_env appender0 (ramp 1 65536 @ ramp 65537 65640) =
      (replicate 65536 None @ rs, a)"
    by (simp only: appendAll_append ramp65536 rest prod.case)
  with ramp65640 have "(replicate 65536 None @ rs, a) = (replicate 65640 None, appender65640)"
    by (simp only: split)
  then have a: "a = appender65640" and rs: "replicate 65536 None @ rs = replicate 65640 None"
    by simp_all
  have "replicate 65640 None = replicate 65536 None @ replicate 104 (None :: error option)"
    by (simp add: replicate_add [symmetric])
  with rs have "rs = replicate 104 None" by simp
  moreover have "length (ramp 65537 65640) = 104" by (simp add: length_ramp)
  ultimately show ?thesis using rest a by (simp only:)
qed

lemma appender65640_shape:
  "bound appender65640" "parallel (a_s appender65640)"
  "length (timestamps (a_s appender65640)) = 547"
  "length (chunk (last (timestamps (a_s appender65640)))) = 120"
  "numSamples (a_s appender65640) = 104"
  "maxTime (a_s appender65640) = 65640"
  "periodType (a_s appender65640) = cpu" "sampleType (a_s appender65640) = cpu"
proof -
  have len: "length (ramp 65537 65640) = 104" by (simp add: length_ramp)
  have n0: "numSamples (a_s appender65536) = of_nat 0"
    by (simp add: appender65536_facts)
  have l0: "length (chunk (last (timestamps (a_s appender65536)))) = 16 + 0"
    by (simp add: appender65536_shape)
  have room: "16 + 0 + length (ramp 65537 65640) \<le> samplesPerChunk"
    by (simp add: len samplesPerChunk_def)
  from raw_wrapped_run [OF appender65536_shape(1,2) n0 l0 room ramp_after_wrap]
  show "bound appender65640" "parallel (a_s appender65640)"
    "length (timestamps (a_s appender65640)) = 547"
    "length (chunk (last (timestamps (a_s appender65640)))) = 120"
    "numSamples (a_s appender65640) = 104"
    by (simp_all add: len appender65536_shape)
  have ne: "ramp 65537 65640 \<noteq> []" using len by auto
  have acc: "acceptedSamples (replicate (length (ramp 65537 65640)) None) (ramp 65537 65640) =
      ramp 65537 65640"
    by (rule acceptedSamples_all)
  have "last (ramp 65537 65640) = sample cpu cpu (of_nat 65640) []"
    by (rule last_ramp) simp
  with appendAll_core [OF raw_tree_contract ramp_after_wrap] ne
  have "maxTime (a_s appender65640) =
      Timestamp (Meta (sample cpu cpu (of_nat 65640) [] :: string rawTree Profile))"
    unfolding acc by (simp only: if_False)
  then show "maxTime (a_s appender65640) = 65640"
    by (simp add: sample_def)
  have "\<forall>p \<in> set (ramp 65537 65640). PeriodType (Meta p) = cpu \<and> SampleType (Meta p) = cpu"
    by (auto simp: ramp_def sample_def simp del: upt_Suc)
  from appendAll_tags [OF raw_tree_contract ramp_after_wrap this]
  show "periodType (a_s appender65640) = cpu" "sampleType (a_s appender65640) = cpu"
    by (simp_all add: appender65536_facts appender65536_shape)
qed

lemma sample65641_accepted: "fst (Append raw_env appender65640 sample65641) = None"
proof -
  have late: "\<not> Timestamp (Meta sample65641) \<le>s maxTime (a_s appender65640)"
    by (simp add: appender65640_shape sample65641_def sample_def word_sle_eq)
  have ne: "timestamps (a_s appender65640) \<noteq> []"
    using appender65640_shape(3) by auto
  have "periodType (a_s appender65640) = PeriodType (Meta sample65641) \<and>
        sampleType (a_s appender65640) = SampleType (Meta sample65641)"
    by (simp add: appender65640_shape sample65641_def sample_def)
  with Append_accepts [OF raw_tree_contract raw_reliable ne late]
  show ?thesis by auto
qed

lemma run120_run: "appendAll raw_env appender0 run120 = (None # replicate 119 None, appender120)"
  using run120_accepted by (simp add: appender120_def prod_eq_iff)

lemma appender120_shape:
  "bound appender120" "parallel (a_s appender120)" "tailFull raw_env (a_s appender120)"
  "numSamples (a_s appender120) = 120"
proof -
  have vo: "validation_only (None # replicate 119 None)"
    and acc: "accepted (None # replicate 119 None) = 120"
    by (simp_all add: validation_only_replicate accepted_replicate)
  from healthy_run [OF raw_chunk_contract raw_tree_contract
      healthy_fresh(1) [OF raw_chunk_contract appender0_fresh] run120_run vo] acc
  have h: "healthy raw_env appender120 120" by simp
  then show "bound appender120" "parallel (a_s appender120)" "numSamples (a_s appender120) = 120"
    by (simp_all add: healthy_def)
  from healthy_counts(6) [OF h] show "tailFull raw_env (a_s appender120)"
    by (simp add: tailFull_def tailCount_def samplesPerChunk_def)
qed

lemma insertValue_new2:
  "insertValue 2 0 k v [(k0, cs0)] = [(k0, cs0), (k, [[], [v]])]" if "k \<noteq> k0"
  using that by (simp add: insertValue_def Let_def raw_AppendAt_def numeral_2_eq_2)

lemma sample121_step:
  assumes "Append raw_env appender120 sample121 = (None, a')"
  shows "length (timestamps (a_s a')) = 2"
    and "chunk (last (timestamps (a_s a'))) = [220]"
    and "last (durations (a_s a')) = [10]"
    and "last (periods (a_s a')) = [100]"
    and "flatValues (a_s a') = [(''main'', [[1], []]), (''f'', [[], [3]])]"
proof -
  let ?s = "a_s appender120"
  let ?s1 = "afterRollDecision raw_env ?s sample121"
  have s1: "?s1 = rolled raw_env (fixTypes ?s sample121) (Timestamp (Meta sample121))"
    using appender120_shape(3) by (simp add: afterRollDecision_def)
  have env: "AppendAt raw_env = raw_AppendAt" "NewDeltaChunk raw_env = []"
    "NewRLEChunk raw_env = []" "NewXORChunk raw_env = []"
    by (simp_all add: raw_env_def)
  have slot: "numSamples ?s mod of_nat samplesPerChunk = 0"
    by (simp add: appender120_shape samplesPerChunk_def)
  note tl = Append_accepted_tail [OF raw_tree_contract appender120_shape(1,2) assms]
  from tl show "length (timestamps (a_s a')) = 2"
    by (simp add: s1 rolled_def fixTypes_frame length_appender120)
  from tl have "chunk (last (timestamps (a_s a'))) = raw_AppendAt [] 0 (Timestamp (Meta sample121))"
    "last (durations (a_s a')) = raw_AppendAt [] 0 (Duration (Meta sample121))"
    "last (periods (a_s a')) = raw_AppendAt [] 0 (Period (Meta sample121))"
    by (simp_all add: s1 rolled_def slot env)
  then show "chunk (last (timestamps (a_s a'))) = [220]" "last (durations (a_s a')) = [10]"
    "last (periods (a_s a')) = [100]"
    by (simp_all add: raw_AppendAt_def sample121_def sample_def)
  from tl obtain s3 where tree: "appendTree raw_env ?s1 (Tree sample121) = (None, s3)"
    and flat: "flatValues (a_s a') = flatValues s3"
    by blast
  from appendTree_Insert [OF tree] obtain s2 where
    s2: "same_frame ?s1 s2" "flatValues s2 = flatValues ?s1"
    and ins: "Insert raw_env (numSamples ?s1 mod of_nat samplesPerChunk) (Tree sample121) s2 = (None, s3)"
    by blast
  have num: "numSamples ?s1 = numSamples ?s"
    by (simp add: s1 rolled_def fixTypes_frame)
  from s2 have s2': "flatValues s2 = [(''main'', [[1], []])]" "length (timestamps s2) = 2"
    by (simp_all add: same_frame_def s1 rolled_def fixTypes_frame flat_appender120
        length_appender120 env)
  from ins have "flatValues s3 = insertValue 2 0 ''f'' 3 [(''main'', [[1], []])]"
    unfolding num slot
    by (auto simp: raw_env_def raw_Insert_def insertNode_def s2' sample121_def sample_def)
  also have "\<dots> = [(''main'', [[1], []]), (''f'', [[], [3]])]"
    by (rule insertValue_new2) simp
  finally show "flatValues (a_s a') = [(''main'', [[1], []]), (''f'', [[], [3]])]"
    using flat by simp
qed

section \<open>The claims\<close>

text \<open>
  C3. A sample whose timestamp is not after \<open>maxTime\<close>, with tags that match those of the
  series, is rejected with \<open>ErrOutOfOrderSample\<close>; \<open>numSamples\<close>, \<open>maxTime\<close> and the chunk
  count of every column are as before. This holds in every state of the series and for
  every implementation of the collaborators, which the call does not reach.
\<close>

theorem out_of_order_rejected:
  assumes "Timestamp (Meta p) \<le>s maxTime (a_s a)"
    and "equalValueType (periodType (a_s a)) (PeriodType (Meta p))"
    and "equalValueType (sampleType (a_s a)) (SampleType (Meta p))"
  shows "\<exists>a'. Append env a p = (Some ErrOutOfOrderSample, a') \<and>
              numSamples (a_s a') = numSamples (a_s a) \<and>
              maxTime (a_s a') = maxTime (a_s a) \<and>
              chunkCounts (a_s a') = chunkCounts (a_s a)"
proof -
  have "fixTypes (a_s a) p = a_s a"
    using assms(2,3) by (rule fixTypes_same)
  with assms have "Append env a p = (Some ErrOutOfOrderSample, a)"
    by (simp add: Append_def)
  then show ?thesis by simp
qed

theorem out_of_order_rejected_witness:
  "Timestamp (Meta (sample cpu cpu 50 [(''main'', 3, 4)])) \<le>s maxTime (a_s appender1) \<and>
   (\<exists>a'. Append raw_env appender1 (sample cpu cpu 50 [(''main'', 3, 4)]) =
            (Some ErrOutOfOrderSample, a') \<and>
          numSamples (a_s a') = 1 \<and> maxTime (a_s a') = 100 \<and>
          chunkCounts (a_s a') = chunkCounts (a_s appender1))"
proof -
  let ?p = "sample cpu cpu 50 [(''main'', 3, 4)] :: string rawTree Profile"
  have h1: "Timestamp (Meta ?p) \<le>s maxTime (a_s appender1)"
    by (simp add: appender1_def sample_def word_sle_eq)
  have h2: "equalValueType (periodType (a_s appender1)) (PeriodType (Meta ?p))"
    by (simp add: appender1_def sample_def equalValueType_def)
  have h3: "equalValueType (sampleType (a_s appender1)) (SampleType (Meta ?p))"
    by (simp add: appender1_def sample_def equalValueType_def)
  show ?thesis
    using h1 out_of_order_rejected [OF h1 h2 h3, of raw_env]
    by (simp add: appender1_def)
qed




text \<open>
  C1, as amended. Take a series made by \<open>NewMemSeries\<close>, its appender, any sequence of
  calls in which no collaborator fails and 120 samples are accepted, and then an accepted
  call, the 121st.
  \<^item> Before that call the timestamp, duration and period columns and every key of the
    flat and cumulative maps have exactly 1 chunk, and the tail chunk holds 120 samples.
  \<^item> The call rolls before it inserts the tree: \<open>Insert\<close> gets slot 0 and a series in which
    each of the three columns has one fresh chunk more, and so has the column of every
    key of the two maps, whether the sample has a value for it or not; these new per-key
    tail chunks report 0 samples. The maps after the call are those that \<open>Insert\<close> returns.
  \<^item> After the call the three columns have exactly 2 chunks, the first as before, and the
    new tail chunks, written at slot 0, report 1 sample each; every per-key column has
    exactly 2 chunks; and every key known before the call is still there, with 2 chunks,
    if \<open>Insert\<close> removes no column.
\<close>

theorem rolls_at_sample_121:
  assumes "chunk_contract env" and "tree_contract env"
    and "Appender env (NewMemSeries env ls i) = Inr a0"
    and "appendAll env a0 ps = (rs, a)" and "validation_only rs" and "accepted rs = 120"
    and "Append env a p = (None, a')"
  shows "length (timestamps (a_s a)) = 1 \<and> length (durations (a_s a)) = 1 \<and>
         length (periods (a_s a)) = 1 \<and>
         (\<forall>(k, cs) \<in> set (flatValues (a_s a)). length cs = 1) \<and>
         (\<forall>(k, cs) \<in> set (cumulativeValues (a_s a)). length cs = 1) \<and>
         NumSamples env (chunk (last (timestamps (a_s a)))) = 120 \<and>
         (\<exists>s2 s3.
            Insert env 0 (Tree p) s2 = (None, s3) \<and>
            timestamps s2 = timestamps (a_s a) @
              [\<lparr>c_minTime = Timestamp (Meta p), c_maxTime = Timestamp (Meta p),
                chunk = NewDeltaChunk env\<rparr>] \<and>
            durations s2 = durations (a_s a) @ [NewRLEChunk env] \<and>
            periods s2 = periods (a_s a) @ [NewRLEChunk env] \<and>
            flatValues s2 = map (\<lambda>(k, cs). (k, cs @ [NewXORChunk env])) (flatValues (a_s a)) \<and>
            cumulativeValues s2 =
              map (\<lambda>(k, cs). (k, cs @ [NewXORChunk env])) (cumulativeValues (a_s a)) \<and>
            (\<forall>(k, cs) \<in> set (flatValues s2). length cs = 2 \<and> NumSamples env (last cs) = 0) \<and>
            (\<forall>(k, cs) \<in> set (cumulativeValues s2).
               length cs = 2 \<and> NumSamples env (last cs) = 0) \<and>
            flatValues (a_s a') = flatValues s3 \<and>
            cumulativeValues (a_s a') = cumulativeValues s3) \<and>
         length (timestamps (a_s a')) = 2 \<and> length (durations (a_s a')) = 2 \<and>
         length (periods (a_s a')) = 2 \<and>
         butlast (timestamps (a_s a')) = timestamps (a_s a) \<and>
         butlast (durations (a_s a')) = durations (a_s a) \<and>
         butlast (periods (a_s a')) = periods (a_s a) \<and>
         chunk (last (timestamps (a_s a'))) =
           AppendAt env (NewDeltaChunk env) 0 (Timestamp (Meta p)) \<and>
         last (durations (a_s a')) = AppendAt env (NewRLEChunk env) 0 (Duration (Meta p)) \<and>
         last (periods (a_s a')) = AppendAt env (NewRLEChunk env) 0 (Period (Meta p)) \<and>
         NumSamples env (chunk (last (timestamps (a_s a')))) = 1 \<and>
         NumSamples env (last (durations (a_s a'))) = 1 \<and>
         NumSamples env (last (periods (a_s a'))) = 1 \<and>
         (\<forall>(k, cs) \<in> set (flatValues (a_s a')). length cs = 2) \<and>
         (\<forall>(k, cs) \<in> set (cumulativeValues (a_s a')). length cs = 2) \<and>
         (tree_keeps_keys env \<longrightarrow>
            (\<forall>(k, cs) \<in> set (flatValues (a_s a)).
               \<exists>cs'. (k, cs') \<in> set (flatValues (a_s a')) \<and> length cs' = 2) \<and>
            (\<forall>(k, cs) \<in> set (cumulativeValues (a_s a)).
               \<exists>cs'. (k, cs') \<in> set (cumulativeValues (a_s a')) \<and> length cs' = 2))"
proof -
  let ?t = "Timestamp (Meta p)"
  let ?s1 = "afterRollDecision env (a_s a) p"
  have "0 + accepted rs \<le> 65536" using assms(6) by simp
  from healthy_run [OF assms(1,2) healthy_fresh(1) [OF assms(1,3)] assms(4,5) this] assms(6)
  have h: "healthy env a 120" by simp
  from healthy_accepted [OF assms(1,2) h _ assms(7)]
  have h': "healthy env a' 121" by simp
  from h have b: "bound a" and par: "parallel (a_s a)" and num: "numSamples (a_s a) = 120"
    by (simp_all add: healthy_def)
  note c = healthy_counts [OF h]
  note c' = healthy_counts [OF h']
  have before: "length (timestamps (a_s a)) = 1" "length (durations (a_s a)) = 1"
    "length (periods (a_s a)) = 1"
    "\<forall>(k, cs) \<in> set (flatValues (a_s a)). length cs = 1"
    "\<forall>(k, cs) \<in> set (cumulativeValues (a_s a)). length cs = 1"
    "NumSamples env (chunk (last (timestamps (a_s a)))) = 120"
    using c by (auto simp: samplesPerChunk_def tailCount_def)
  have after: "length (timestamps (a_s a')) = 2" "length (durations (a_s a')) = 2"
    "length (periods (a_s a')) = 2"
    "\<forall>(k, cs) \<in> set (flatValues (a_s a')). length cs = 2"
    "\<forall>(k, cs) \<in> set (cumulativeValues (a_s a')). length cs = 2"
    "NumSamples env (chunk (last (timestamps (a_s a')))) = 1"
    "NumSamples env (last (durations (a_s a'))) = 1"
    "NumSamples env (last (periods (a_s a'))) = 1"
    using c' by (auto simp: samplesPerChunk_def tailCount_def)
  have full: "tailFull env (a_s a)"
    using before(6) by (simp add: tailFull_def samplesPerChunk_def)
  then have s1: "?s1 = rolled env (fixTypes (a_s a) p) ?t"
    by (simp add: afterRollDecision_def)
  have cols: "timestamps ?s1 = timestamps (a_s a) @
        [\<lparr>c_minTime = ?t, c_maxTime = ?t, chunk = NewDeltaChunk env\<rparr>]"
    "durations ?s1 = durations (a_s a) @ [NewRLEChunk env]"
    "periods ?s1 = periods (a_s a) @ [NewRLEChunk env]"
    "flatValues ?s1 = map (\<lambda>(k, cs). (k, cs @ [NewXORChunk env])) (flatValues (a_s a))"
    "cumulativeValues ?s1 =
       map (\<lambda>(k, cs). (k, cs @ [NewXORChunk env])) (cumulativeValues (a_s a))"
    "numSamples ?s1 = numSamples (a_s a)"
    by (simp_all add: s1 rolled_def fixTypes_frame)
  have slot: "numSamples (a_s a) mod of_nat samplesPerChunk = 0"
    by (simp add: num samplesPerChunk_def)
  note tl = Append_accepted_tail [OF assms(2) b par assms(7)]
  then obtain s3 where tree: "appendTree env ?s1 (Tree p) = (None, s3)"
    and maps: "flatValues (a_s a') = flatValues s3" "cumulativeValues (a_s a') = cumulativeValues s3"
    by blast
  from appendTree_Insert [OF tree] obtain s2 where
    fr: "same_frame ?s1 s2" and fl: "flatValues s2 = flatValues ?s1"
    and cu: "cumulativeValues s2 = cumulativeValues ?s1"
    and ins: "Insert env 0 (Tree p) s2 = (None, s3)"
    unfolding cols(6) slot by blast
  from assms(1) have xor: "NumSamples env (NewXORChunk env) = 0"
    by (simp add: chunk_contract_def)
  have fresh_f: "\<forall>(k, cs) \<in> set (flatValues s2). length cs = 2 \<and> NumSamples env (last cs) = 0"
    using rolled_columns [OF before(4) xor] by (simp add: fl cols(4) numeral_2_eq_2)
  have fresh_c: "\<forall>(k, cs) \<in> set (cumulativeValues s2).
      length cs = 2 \<and> NumSamples env (last cs) = 0"
    using rolled_columns [OF before(5) xor] by (simp add: cu cols(5) numeral_2_eq_2)
  have roll: "\<exists>s2 s3.
            Insert env 0 (Tree p) s2 = (None, s3) \<and>
            timestamps s2 = timestamps (a_s a) @
              [\<lparr>c_minTime = ?t, c_maxTime = ?t, chunk = NewDeltaChunk env\<rparr>] \<and>
            durations s2 = durations (a_s a) @ [NewRLEChunk env] \<and>
            periods s2 = periods (a_s a) @ [NewRLEChunk env] \<and>
            flatValues s2 = map (\<lambda>(k, cs). (k, cs @ [NewXORChunk env])) (flatValues (a_s a)) \<and>
            cumulativeValues s2 =
              map (\<lambda>(k, cs). (k, cs @ [NewXORChunk env])) (cumulativeValues (a_s a)) \<and>
            (\<forall>(k, cs) \<in> set (flatValues s2). length cs = 2 \<and> NumSamples env (last cs) = 0) \<and>
            (\<forall>(k, cs) \<in> set (cumulativeValues s2).
               length cs = 2 \<and> NumSamples env (last cs) = 0) \<and>
            flatValues (a_s a') = flatValues s3 \<and>
            cumulativeValues (a_s a') = cumulativeValues s3"
    using ins same_frameD(1-3) [OF fr] fl cu fresh_f fresh_c maps
    by (intro exI [of _ s2] exI [of _ s3]) (simp add: cols)
  have kept: "(\<forall>(k, cs) \<in> set (flatValues (a_s a)).
         \<exists>cs'. (k, cs') \<in> set (flatValues (a_s a')) \<and> length cs' = 2) \<and>
      (\<forall>(k, cs) \<in> set (cumulativeValues (a_s a)).
         \<exists>cs'. (k, cs') \<in> set (cumulativeValues (a_s a')) \<and> length cs' = 2)"
    if keeps: "tree_keeps_keys env"
  proof -
    from keeps ins have kept: "keeps_columns (flatValues s2) (flatValues s3)"
      "keeps_columns (cumulativeValues s2) (cumulativeValues s3)"
      unfolding tree_keeps_keys_def by blast+
    have "\<forall>(k, cs) \<in> set (flatValues (a_s a)).
        \<exists>cs'. (k, cs') \<in> set (flatValues (a_s a')) \<and> length cs' = 2"
      using kept_after_roll [OF kept(1) [unfolded fl cols(4)] before(4)]
      by (simp add: maps numeral_2_eq_2)
    moreover have "\<forall>(k, cs) \<in> set (cumulativeValues (a_s a)).
        \<exists>cs'. (k, cs') \<in> set (cumulativeValues (a_s a')) \<and> length cs' = 2"
      using kept_after_roll [OF kept(2) [unfolded cu cols(5)] before(5)]
      by (simp add: maps numeral_2_eq_2)
    ultimately show ?thesis ..
  qed
  from tl have writes: "butlast (timestamps (a_s a')) = timestamps (a_s a)"
    "butlast (durations (a_s a')) = durations (a_s a)"
    "butlast (periods (a_s a')) = periods (a_s a)"
    "chunk (last (timestamps (a_s a'))) = AppendAt env (NewDeltaChunk env) 0 ?t"
    "last (durations (a_s a')) = AppendAt env (NewRLEChunk env) 0 (Duration (Meta p))"
    "last (periods (a_s a')) = AppendAt env (NewRLEChunk env) 0 (Period (Meta p))"
    by (simp_all add: cols slot)
  from kept have kept': "tree_keeps_keys env \<longrightarrow>
      (\<forall>(k, cs) \<in> set (flatValues (a_s a)).
         \<exists>cs'. (k, cs') \<in> set (flatValues (a_s a')) \<and> length cs' = 2) \<and>
      (\<forall>(k, cs) \<in> set (cumulativeValues (a_s a)).
         \<exists>cs'. (k, cs') \<in> set (cumulativeValues (a_s a')) \<and> length cs' = 2)"
    by (rule impI)
  from before roll after writes kept' show ?thesis
    by (intro conjI)
qed

theorem rolls_at_sample_121_witness:
  "chunk_contract raw_env \<and> tree_contract raw_env \<and> tree_keeps_keys raw_env \<and>
   Appender raw_env (NewMemSeries raw_env [(''job'', ''a'')] 1) = Inr appender0 \<and>
   appendAll raw_env appender0 run120 = (None # replicate 119 None, appender120) \<and>
   validation_only (None # replicate 119 None) \<and>
   accepted (None # replicate 119 None) = 120 \<and>
   fst (Append raw_env appender120 sample121) = None \<and>
   length (timestamps (a_s appender120)) = 1 \<and>
   NumSamples raw_env (chunk (last (timestamps (a_s appender120)))) = 120 \<and>
   flatValues (a_s appender120) = [(''main'', [[1]])] \<and>
   length (timestamps (a_s (snd (Append raw_env appender120 sample121)))) = 2 \<and>
   chunk (last (timestamps (a_s (snd (Append raw_env appender120 sample121))))) = [220] \<and>
   NumSamples raw_env
     (chunk (last (timestamps (a_s (snd (Append raw_env appender120 sample121)))))) = 1 \<and>
   flatValues (a_s (snd (Append raw_env appender120 sample121))) =
     [(''main'', [[1], []]), (''f'', [[], [3]])]"
proof -
  let ?rs = "None # replicate 119 (None :: error option)"
  have vo: "validation_only ?rs" and acc: "accepted ?rs = 120"
    by (simp_all add: validation_only_replicate accepted_replicate)
  obtain a' where step: "Append raw_env appender120 sample121 = (None, a')"
    using sample121_accepted by (cases "Append raw_env appender120 sample121") simp
  note w = rolls_at_sample_121 [OF raw_chunk_contract raw_tree_contract
      appender0_fresh run120_run vo acc step]
  from w have before: "length (timestamps (a_s appender120)) = 1"
    "NumSamples raw_env (chunk (last (timestamps (a_s appender120)))) = 120"
    by blast+
  from w have after: "length (timestamps (a_s a')) = 2"
    "NumSamples raw_env (chunk (last (timestamps (a_s a')))) = 1"
    by blast+
  from w have "chunk (last (timestamps (a_s a'))) =
      AppendAt raw_env (NewDeltaChunk raw_env) 0 (Timestamp (Meta sample121))"
    by blast
  then have ts: "chunk (last (timestamps (a_s a'))) = [220]"
    by (simp add: raw_env_def raw_AppendAt_def sample121_def sample_def)
  show ?thesis
    unfolding step fst_conv snd_conv
    using raw_chunk_contract raw_tree_contract raw_keeps_keys appender0_fresh run120_run vo acc
      before after ts flat_appender120 sample121_step(5) [OF step]
    by blast
qed

text \<open>
  C1 as stated fails for the tail chunk of a key that gets no value in sample 121: after
  the 121 samples of \<open>run121\<close>, of which only the first has a value for \<open>main\<close>, the flat
  column of \<open>main\<close> has two chunks and its new tail chunk reports 0 samples.
\<close>

theorem tail_chunk_of_silent_key_is_empty:
  "accepted (fst (appendAll raw_env appender0 run121)) = 121 \<and>
   flatValues (a_s (snd (appendAll raw_env appender0 run121))) = [(''main'', [[1], []])] \<and>
   NumSamples raw_env (last (snd (hd (flatValues (a_s (snd (appendAll raw_env appender0 run121))))))) = 0"
proof -
  obtain rs a where run: "appendAll raw_env appender0 run121 = (rs, a)"
    by (cases "appendAll raw_env appender0 run121")
  with run121_accepted have rs: "rs = None # replicate 120 None" by simp
  then have vo: "validation_only rs" and acc: "accepted rs = 121"
    by (simp_all add: validation_only_replicate accepted_replicate)
  from healthy_fresh(1) [OF raw_chunk_contract appender0_fresh]
  have "healthy raw_env appender0 0" .
  from healthy_run [OF raw_chunk_contract raw_tree_contract this run vo] acc
  have "healthy raw_env a 121" by simp
  then have len: "length (timestamps (a_s a)) = 2"
    using healthy_counts(1) by (fastforce simp: samplesPerChunk_def)
  from run rs have rest: "appendAll raw_env appender1 (ramp 101 220) =
      (replicate (length (ramp 101 220)) None, a)"
    by (auto simp: run121_def appendAll_Cons append_first length_ramp simp del: appendAll.simps)
  have "flatValues (a_s a) = [(''main'', [1] # replicate (length (timestamps (a_s a)) - 1) [])]"
    by (rule raw_silent_run [OF _ rest]) (auto simp: ramp_def sample_def appender1_def simp del: upt_Suc)
  with len have "flatValues (a_s a) = [(''main'', [[1], []])]" by simp
  with acc run show ?thesis
    by (simp add: raw_env_def)
qed

text \<open>
  C6, as amended. From a series made by \<open>NewMemSeries\<close>, after any sequence of calls of
  which \<open>N\<close> were accepted, \<open>numSamples\<close> is \<open>N\<close> modulo 65536 (it is a 16-bit counter), and
  \<open>maxTime\<close> is the timestamp of the last accepted sample. This holds for every sequence,
  so for those with strictly increasing timestamps and matching tags.
\<close>

theorem numSamples_counts_modulo:
  assumes "tree_contract env" and "a_s a0 = NewMemSeries env ls i"
    and "appendAll env a0 ps = (rs, a)"
  shows "unat (numSamples (a_s a)) = accepted rs mod 65536 \<and>
         (0 < accepted rs \<longrightarrow>
            maxTime (a_s a) = Timestamp (Meta (last (acceptedSamples rs ps))))"
proof -
  note core = appendAll_core [OF assms(1,3)]
  have "numSamples (a_s a0) = 0"
    by (simp add: assms(2) NewMemSeries_def)
  with core have "numSamples (a_s a) = of_nat (accepted rs)" by simp
  then have n: "unat (numSamples (a_s a)) = accepted rs mod 65536"
    by (simp add: unat_of_nat)
  have "length (acceptedSamples rs ps) = accepted rs"
    using appendAll_length [OF assms(3)] by (rule length_acceptedSamples)
  then have "0 < accepted rs \<Longrightarrow> acceptedSamples rs ps \<noteq> []"
    by auto
  with core n show ?thesis by simp
qed

theorem numSamples_counts_modulo_witness:
  "a_s appender0 = NewMemSeries raw_env [(''job'', ''a'')] 1 \<and>
   appendAll raw_env appender0 scenarioA =
     ([None, Some ErrOutOfOrderSample, Some ErrSampleTypeMismatch, None], appender2) \<and>
   unat (numSamples (a_s appender2)) = 2 \<and> maxTime (a_s appender2) = 200"
proof -
  have s0: "a_s appender0 = NewMemSeries raw_env [(''job'', ''a'')] 1"
    by (simp add: appender0_def series0_def)
  from numSamples_counts_modulo [OF raw_tree_contract s0 scenarioA_run]
  have "unat (numSamples (a_s appender2)) = 2 \<and> maxTime (a_s appender2) = 200"
    by (simp add: scenarioA_def sample_def)
  with s0 scenarioA_run show ?thesis by (simp only: simp_thms)
qed

text \<open>
  C6 as stated fails: 65536 samples at the times 1, ..., 65536, all with the same tags, are
  all accepted, and \<open>numSamples\<close> is then 0.
\<close>

theorem numSamples_not_the_count:
  "accepted (fst (appendAll raw_env appender0 (ramp 1 65536))) = 65536 \<and>
   unat (numSamples (a_s (snd (appendAll raw_env appender0 (ramp 1 65536))))) = 0"
proof -
  obtain rs a where run: "appendAll raw_env appender0 (ramp 1 65536) = (rs, a)"
    by (cases "appendAll raw_env appender0 (ramp 1 65536)")
  have "rs = replicate 65536 None"
    using ramp_accepted [of 65536] run by simp
  then have acc: "accepted rs = 65536"
    by (simp add: accepted_def)
  from appendAll_core [OF raw_tree_contract run] acc
  have "numSamples (a_s a) = 0"
    by (simp add: appender0_def series0_def NewMemSeries_def)
  with acc run show ?thesis by simp
qed

text \<open>
  C7. From a series made by \<open>NewMemSeries\<close>, after any sequence of calls \<open>minTime\<close> is the
  timestamp of the first accepted sample whose timestamp is not zero (and zero, unset,
  while there is none); once it is set, no further sequence of calls, accepted or
  rejected, changes it.
\<close>

theorem minTime_first_nonzero:
  assumes "tree_contract env" and "a_s a0 = NewMemSeries env ls i"
    and "appendAll env a0 ps = (rs, a)" and "appendAll env a qs = (rs', a')"
  shows "minTime (a_s a) = firstNonzero (acceptedSamples rs ps) \<and>
         (minTime (a_s a) \<noteq> 0 \<longrightarrow> minTime (a_s a') = minTime (a_s a))"
proof -
  have "minTime (a_s a0) = 0"
    by (simp add: assms(2) NewMemSeries_def)
  with appendAll_core [OF assms(1,3)] appendAll_core [OF assms(1,4)] show ?thesis
    by simp
qed

theorem minTime_first_nonzero_witness:
  "a_s appender0 = NewMemSeries raw_env [(''job'', ''a'')] 1 \<and>
   appendAll raw_env appender0 scenarioA =
     ([None, Some ErrOutOfOrderSample, Some ErrSampleTypeMismatch, None], appender2) \<and>
   appendAll raw_env appender2 [sample cpu cpu 300 [], sample cpu cpu 7 []] =
     ([None, Some ErrOutOfOrderSample], appender3) \<and>
   minTime (a_s appender2) = 100 \<and> minTime (a_s appender3) = 100"
proof -
  have s0: "a_s appender0 = NewMemSeries raw_env [(''job'', ''a'')] 1"
    by (simp add: appender0_def series0_def)
  from minTime_first_nonzero [OF raw_tree_contract s0 scenarioA_run later_run]
  have "minTime (a_s appender2) = 100 \<and> minTime (a_s appender3) = 100"
    by (simp add: scenarioA_def sample_def)
  with s0 scenarioA_run later_run show ?thesis by (simp only: simp_thms)
qed

text \<open>
  C8, as amended. Take a series made by \<open>NewMemSeries\<close>, its appender, a sequence of calls
  in which no collaborator fails, and then an accepted call. The call hands the tree of the
  sample to \<open>Insert\<close> with the slot \<open>numSamples mod 120\<close> and with the series as the roll
  decision left it (so after the roll, when there was one); it writes the timestamp, the
  duration and the period at that same slot into the tail chunks of that series and into
  no other chunk; the slot is taken from \<open>numSamples\<close> before it is incremented. When the
  call rolled, the three values are written into the fresh chunks, and the slot is 0 if
  fewer than 65536 samples had been accepted before the call.
\<close>

theorem append_writes_at_slot:
  assumes "chunk_contract env" and "tree_contract env"
    and "Appender env (NewMemSeries env ls i) = Inr a0"
    and "appendAll env a0 ps = (rs, a)" and "validation_only rs"
    and "Append env a p = (None, a')"
  shows "(\<exists>s2 s3. same_frame (afterRollDecision env (a_s a) p) s2 \<and>
            flatValues s2 = flatValues (afterRollDecision env (a_s a) p) \<and>
            cumulativeValues s2 = cumulativeValues (afterRollDecision env (a_s a) p) \<and>
            Insert env (numSamples (a_s a) mod of_nat samplesPerChunk) (Tree p) s2 = (None, s3) \<and>
            flatValues (a_s a') = flatValues s3 \<and>
            cumulativeValues (a_s a') = cumulativeValues s3) \<and>
         chunk (last (timestamps (a_s a'))) =
           AppendAt env (chunk (last (timestamps (afterRollDecision env (a_s a) p))))
             (numSamples (a_s a) mod of_nat samplesPerChunk) (Timestamp (Meta p)) \<and>
         last (durations (a_s a')) =
           AppendAt env (last (durations (afterRollDecision env (a_s a) p)))
             (numSamples (a_s a) mod of_nat samplesPerChunk) (Duration (Meta p)) \<and>
         last (periods (a_s a')) =
           AppendAt env (last (periods (afterRollDecision env (a_s a) p)))
             (numSamples (a_s a) mod of_nat samplesPerChunk) (Period (Meta p)) \<and>
         butlast (timestamps (a_s a')) = butlast (timestamps (afterRollDecision env (a_s a) p)) \<and>
         butlast (durations (a_s a')) = butlast (durations (afterRollDecision env (a_s a) p)) \<and>
         butlast (periods (a_s a')) = butlast (periods (afterRollDecision env (a_s a) p)) \<and>
         numSamples (a_s a') = numSamples (a_s a) + 1 \<and>
         (tailFull env (a_s a) \<longrightarrow>
            afterRollDecision env (a_s a) p =
              rolled env (fixTypes (a_s a) p) (Timestamp (Meta p)) \<and>
            chunk (last (timestamps (a_s a'))) =
              AppendAt env (NewDeltaChunk env)
                (numSamples (a_s a) mod of_nat samplesPerChunk) (Timestamp (Meta p)) \<and>
            last (durations (a_s a')) =
              AppendAt env (NewRLEChunk env)
                (numSamples (a_s a) mod of_nat samplesPerChunk) (Duration (Meta p)) \<and>
            last (periods (a_s a')) =
              AppendAt env (NewRLEChunk env)
                (numSamples (a_s a) mod of_nat samplesPerChunk) (Period (Meta p)) \<and>
            (accepted rs < 65536 \<longrightarrow> numSamples (a_s a) mod of_nat samplesPerChunk = 0))"
proof -
  let ?s1 = "afterRollDecision env (a_s a) p"
  let ?slot = "numSamples (a_s a) mod of_nat samplesPerChunk"
  let ?n = "accepted rs"
  from steady_run [OF assms(2) steady_fresh [OF assms(3)] assms(4,5)]
  have b: "bound a" and par: "parallel (a_s a)" by simp_all
  note tl = Append_accepted_tail [OF assms(2) b par assms(6)]
  then obtain s3 where tree: "appendTree env ?s1 (Tree p) = (None, s3)"
    and maps: "flatValues (a_s a') = flatValues s3" "cumulativeValues (a_s a') = cumulativeValues s3"
    by blast
  have num1: "numSamples ?s1 = numSamples (a_s a)"
    by (simp add: afterRollDecision_def rolled_def fixTypes_frame)
  from appendTree_Insert [OF tree] maps num1
  have part1: "\<exists>s2 s3. same_frame ?s1 s2 \<and> flatValues s2 = flatValues ?s1 \<and>
            cumulativeValues s2 = cumulativeValues ?s1 \<and>
            Insert env ?slot (Tree p) s2 = (None, s3) \<and>
            flatValues (a_s a') = flatValues s3 \<and> cumulativeValues (a_s a') = cumulativeValues s3"
    by auto
  have part3: "numSamples (a_s a') = numSamples (a_s a) + 1"
    using Append_core(1) [OF assms(2,6)] by simp
  have part4: "?s1 = rolled env (fixTypes (a_s a) p) (Timestamp (Meta p)) \<and>
      chunk (last (timestamps (a_s a'))) =
        AppendAt env (NewDeltaChunk env) ?slot (Timestamp (Meta p)) \<and>
      last (durations (a_s a')) = AppendAt env (NewRLEChunk env) ?slot (Duration (Meta p)) \<and>
      last (periods (a_s a')) = AppendAt env (NewRLEChunk env) ?slot (Period (Meta p)) \<and>
      (?n < 65536 \<longrightarrow> ?slot = 0)"
    if full: "tailFull env (a_s a)"
  proof -
    have s1: "?s1 = rolled env (fixTypes (a_s a) p) (Timestamp (Meta p))"
      using full by (simp add: afterRollDecision_def)
    have "chunk (last (timestamps ?s1)) = NewDeltaChunk env"
      "last (durations ?s1) = NewRLEChunk env" "last (periods ?s1) = NewRLEChunk env"
      by (simp_all add: s1 rolled_def)
    with tl have writes: "chunk (last (timestamps (a_s a'))) =
        AppendAt env (NewDeltaChunk env) ?slot (Timestamp (Meta p))"
      "last (durations (a_s a')) = AppendAt env (NewRLEChunk env) ?slot (Duration (Meta p))"
      "last (periods (a_s a')) = AppendAt env (NewRLEChunk env) ?slot (Period (Meta p))"
      by simp_all
    have "?slot = 0" if small: "?n < 65536"
    proof -
      from healthy_run [OF assms(1,2) healthy_fresh(1) [OF assms(1,3)] assms(4,5)] small
      have h: "healthy env a ?n" by simp
      then have st: "in_step env (a_s a) ?n" by (simp add: healthy_def)
      from full st have "samplesPerChunk \<le> tailCount ?n"
        by (simp add: tailFull_def in_step_def)
      then have "?n mod samplesPerChunk = 0"
        using tailCount_full by blast
      with healthy_unat [OF h small] show ?thesis
        by (simp add: slot_zero)
    qed
    with s1 writes show ?thesis by blast
  qed
  from tl part1 part3 part4 show ?thesis by blast
qed

theorem append_writes_at_slot_witness:
  "Appender raw_env (NewMemSeries raw_env [(''job'', ''a'')] 1) = Inr appender0 \<and>
   appendAll raw_env appender0 run120 = (None # replicate 119 None, appender120) \<and>
   validation_only (None # replicate 119 None) \<and>
   accepted (None # replicate 119 None) < 65536 \<and>
   fst (Append raw_env appender120 sample121) = None \<and>
   tailFull raw_env (a_s appender120) \<and>
   numSamples (a_s appender120) mod of_nat samplesPerChunk = 0 \<and>
   numSamples (a_s (snd (Append raw_env appender120 sample121))) = 121 \<and>
   chunk (last (timestamps (a_s (snd (Append raw_env appender120 sample121))))) = [220] \<and>
   last (durations (a_s (snd (Append raw_env appender120 sample121)))) = [10] \<and>
   flatValues (a_s (snd (Append raw_env appender120 sample121))) =
     [(''main'', [[1], []]), (''f'', [[], [3]])]"
proof -
  let ?rs = "None # replicate 119 (None :: error option)"
  have vo: "validation_only ?rs" and acc: "accepted ?rs < 65536"
    by (simp_all add: validation_only_replicate accepted_replicate)
  obtain a' where step: "Append raw_env appender120 sample121 = (None, a')"
    using sample121_accepted by (cases "Append raw_env appender120 sample121") simp
  note full = appender120_shape(3)
  note w = append_writes_at_slot [OF raw_chunk_contract raw_tree_contract appender0_fresh
      run120_run vo step]
  from w full acc have slot: "numSamples (a_s appender120) mod of_nat samplesPerChunk = 0"
    and s1: "afterRollDecision raw_env (a_s appender120) sample121 =
      rolled raw_env (fixTypes (a_s appender120) sample121) (Timestamp (Meta sample121))"
    and ts: "chunk (last (timestamps (a_s a'))) =
      AppendAt raw_env (NewDeltaChunk raw_env)
        (numSamples (a_s appender120) mod of_nat samplesPerChunk) (Timestamp (Meta sample121))"
    and ds: "last (durations (a_s a')) =
      AppendAt raw_env (NewRLEChunk raw_env)
        (numSamples (a_s appender120) mod of_nat samplesPerChunk) (Duration (Meta sample121))"
    by blast+
  from w have num: "numSamples (a_s a') = 121"
    by (simp add: appender120_shape)
  from w obtain s2 s3 where
    s2: "same_frame (afterRollDecision raw_env (a_s appender120) sample121) s2"
      "flatValues s2 = flatValues (afterRollDecision raw_env (a_s appender120) sample121)"
    and ins: "Insert raw_env (numSamples (a_s appender120) mod of_nat samplesPerChunk)
        (Tree sample121) s2 = (None, s3)"
    and fl: "flatValues (a_s a') = flatValues s3"
    by blast
  have "NewXORChunk raw_env = []" by (simp add: raw_env_def)
  then have "flatValues (afterRollDecision raw_env (a_s appender120) sample121) =
        [(''main'', [[1], []])]"
    "length (timestamps (afterRollDecision raw_env (a_s appender120) sample121)) = 2"
    using flat_appender120 length_appender120
    by (simp_all add: s1 rolled_def fixTypes_frame)
  with s2 have "flatValues s2 = [(''main'', [[1], []])]" "length (timestamps s2) = 2"
    by (simp_all add: same_frame_def)
  with ins slot have "flatValues s3 = [(''main'', [[1], []]), (''f'', [[], [3]])]"
    by (auto simp: raw_env_def raw_Insert_def insertNode_def insertValue_def raw_AppendAt_def
        sample121_def sample_def numeral_2_eq_2)
  with fl have flat: "flatValues (a_s a') = [(''main'', [[1], []]), (''f'', [[], [3]])]" by simp
  from ts have ts': "chunk (last (timestamps (a_s a'))) = [220]"
    unfolding slot by (simp add: raw_env_def raw_AppendAt_def sample121_def sample_def)
  from ds have ds': "last (durations (a_s a')) = [10]"
    unfolding slot by (simp add: raw_env_def raw_AppendAt_def sample121_def sample_def)
  show ?thesis
    unfolding step fst_conv snd_conv
    using appender0_fresh run120_run vo acc full slot num ts' ds' flat by blast
qed

text \<open>
  C8 as stated fails once \<open>numSamples\<close> has wrapped: a roll no longer comes with slot 0.
  After the 65640 accepted samples of \<open>ramp 1 65640\<close> the tail chunk is full and the 16-bit
  counter is 104. The next sample is accepted and rolls, and its slot is 104: in the new
  timestamp chunk the encoder modelled here puts it after 104 zeros.
\<close>

theorem roll_after_wrap_at_slot_104:
  "accepted (fst (appendAll raw_env appender0 (ramp 1 65640))) = 65640 \<and>
   snd (appendAll raw_env appender0 (ramp 1 65640)) = appender65640 \<and>
   tailFull raw_env (a_s appender65640) \<and>
   fst (Append raw_env appender65640 sample65641) = None \<and>
   numSamples (a_s appender65640) mod of_nat samplesPerChunk = 104 \<and>
   length (timestamps (a_s (snd (Append raw_env appender65640 sample65641)))) = 548 \<and>
   chunk (last (timestamps (a_s (snd (Append raw_env appender65640 sample65641))))) =
     replicate 104 0 @ [65641]"
proof -
  obtain a' where step: "Append raw_env appender65640 sample65641 = (None, a')"
    using sample65641_accepted by (cases "Append raw_env appender65640 sample65641") simp
  have full: "tailFull raw_env (a_s appender65640)"
    by (simp add: tailFull_def raw_env_def appender65640_shape samplesPerChunk_def)
  then have s1: "afterRollDecision raw_env (a_s appender65640) sample65641 =
      rolled raw_env (fixTypes (a_s appender65640) sample65641) (Timestamp (Meta sample65641))"
    by (simp add: afterRollDecision_def)
  have slot: "numSamples (a_s appender65640) mod of_nat samplesPerChunk = 104"
    by (simp add: appender65640_shape samplesPerChunk_def)
  have app: "AppendAt raw_env = raw_AppendAt" "NewDeltaChunk raw_env = []"
    by (simp_all add: raw_env_def)
  note tl = Append_accepted_tail [OF raw_tree_contract appender65640_shape(1,2) step]
  from tl have "length (timestamps (a_s a')) = 548"
    by (simp add: s1 rolled_def fixTypes_frame appender65640_shape)
  moreover from tl have "chunk (last (timestamps (a_s a'))) =
      raw_AppendAt [] 104 (Timestamp (Meta sample65641))"
    by (simp add: s1 rolled_def slot app)
  then have "chunk (last (timestamps (a_s a'))) = replicate 104 0 @ [65641]"
    by (simp add: raw_AppendAt_def sample65641_def sample_def)
  ultimately show ?thesis
    unfolding step fst_conv snd_conv
    using full slot ramp65640 by (simp add: accepted_replicate)
qed

text \<open>
  C10. \<open>numSamples\<close> is a 16-bit counter. From a series made by \<open>NewMemSeries\<close>, after any
  sequence of calls of which 65536 were accepted it is 0 again. The next call, whatever it
  returns, leaves the tags of its sample as the tags of the series, as for a first sample;
  its slot is 0; and if it is accepted, \<open>numSamples\<close> is 1. If moreover no collaborator
  has failed, the timestamp column has 547 chunks, its tail chunk holds 16 samples and is
  not rolled, and the accepted call writes its timestamp into that chunk at slot 0.
\<close>

theorem numSamples_wraps_to_zero:
  assumes "tree_contract env" and "Appender env (NewMemSeries env ls i) = Inr a0"
    and "appendAll env a0 ps = (rs, a)" and "accepted rs = 65536"
    and "Append env a p = (r, a')"
  shows "numSamples (a_s a) = 0 \<and>
         periodType (a_s a') = PeriodType (Meta p) \<and>
         sampleType (a_s a') = SampleType (Meta p) \<and>
         numSamples (a_s a) mod of_nat samplesPerChunk = 0 \<and>
         (r = None \<longrightarrow> numSamples (a_s a') = 1) \<and>
         (chunk_contract env \<and> validation_only rs \<longrightarrow>
            length (timestamps (a_s a)) = 547 \<and>
            NumSamples env (chunk (last (timestamps (a_s a)))) = 16 \<and>
            \<not> tailFull env (a_s a) \<and>
            (r = None \<longrightarrow>
               length (timestamps (a_s a')) = 547 \<and>
               chunk (last (timestamps (a_s a'))) =
                 AppendAt env (chunk (last (timestamps (a_s a)))) 0 (Timestamp (Meta p))))"
proof -
  have fresh: "numSamples (a_s a0) = 0"
    using assms(2)
    by (auto simp: Appender_def NewMemSeries_def Let_def split: option.splits if_splits)
  from appendAll_core [OF assms(1,3)] fresh assms(4)
  have zero: "numSamples (a_s a) = 0" by simp
  from Append_tags [OF assms(1,5)] zero
  have tags: "periodType (a_s a') = PeriodType (Meta p)" "sampleType (a_s a') = SampleType (Meta p)"
    by (simp_all add: fixTypes_tags)
  from zero have slot: "numSamples (a_s a) mod of_nat samplesPerChunk = 0" by simp
  have one: "numSamples (a_s a') = 1" if "r = None"
    using Append_core(1) [OF assms(1,5)] that zero by simp
  have extra: "length (timestamps (a_s a)) = 547 \<and>
            NumSamples env (chunk (last (timestamps (a_s a)))) = 16 \<and>
            \<not> tailFull env (a_s a) \<and>
            (r = None \<longrightarrow>
               length (timestamps (a_s a')) = 547 \<and>
               chunk (last (timestamps (a_s a'))) =
                 AppendAt env (chunk (last (timestamps (a_s a)))) 0 (Timestamp (Meta p)))"
    if cc: "chunk_contract env" and vo: "validation_only rs"
  proof -
    from healthy_run [OF cc assms(1) healthy_fresh(1) [OF cc assms(2)] assms(3) vo] assms(4)
    have h: "healthy env a 65536" by simp
    then have b: "bound a" and par: "parallel (a_s a)" by (simp_all add: healthy_def)
    note c = healthy_counts [OF h]
    have len: "length (timestamps (a_s a)) = 547"
      using c(1) by (simp add: samplesPerChunk_def)
    have cnt: "NumSamples env (chunk (last (timestamps (a_s a)))) = 16"
      using c(6) by (simp add: tailCount_def samplesPerChunk_def)
    then have nf: "\<not> tailFull env (a_s a)"
      by (simp add: tailFull_def samplesPerChunk_def)
    then have s1: "afterRollDecision env (a_s a) p = fixTypes (a_s a) p"
      by (simp add: afterRollDecision_def)
    have "length (timestamps (a_s a')) = 547 \<and>
          chunk (last (timestamps (a_s a'))) =
            AppendAt env (chunk (last (timestamps (a_s a)))) 0 (Timestamp (Meta p))"
      if "r = None"
      using Append_accepted_tail [OF assms(1) b par] assms(5) that len slot
      by (simp add: s1 fixTypes_frame)
    with len cnt nf show ?thesis by blast
  qed
  from zero tags slot one extra show ?thesis by blast
qed

theorem numSamples_wraps_to_zero_witness:
  "Appender raw_env (NewMemSeries raw_env [(''job'', ''a'')] 1) = Inr appender0 \<and>
   appendAll raw_env appender0 (ramp 1 65536) = (replicate 65536 None, appender65536) \<and>
   accepted (replicate 65536 None) = 65536 \<and>
   chunk_contract raw_env \<and> validation_only (replicate 65536 None) \<and>
   periodType (a_s appender65536) = cpu \<and>
   numSamples (a_s appender65536) = 0 \<and>
   NumSamples raw_env (chunk (last (timestamps (a_s appender65536)))) = 16 \<and>
   fst (Append raw_env appender65536 sample65537) = None \<and>
   periodType (a_s (snd (Append raw_env appender65536 sample65537))) = alloc \<and>
   sampleType (a_s (snd (Append raw_env appender65536 sample65537))) = alloc \<and>
   numSamples (a_s (snd (Append raw_env appender65536 sample65537))) = 1"
proof -
  obtain a' where step: "Append raw_env appender65536 sample65537 = (None, a')"
    using sample65537_accepted by (cases "Append raw_env appender65536 sample65537") simp
  have acc: "accepted (replicate 65536 None) = 65536" by (rule accepted_replicate)
  have vo: "validation_only (replicate 65536 None)" by (rule validation_only_replicate)
  from numSamples_wraps_to_zero [OF raw_tree_contract appender0_fresh ramp65536 acc step]
    raw_chunk_contract vo
  have "numSamples (a_s appender65536) = 0"
    "periodType (a_s a') = alloc" "sampleType (a_s a') = alloc" "numSamples (a_s a') = 1"
    "NumSamples raw_env (chunk (last (timestamps (a_s appender65536)))) = 16"
    by (simp_all add: sample65537_def sample_def)
  then show ?thesis
    unfolding step fst_conv snd_conv
    using appender0_fresh ramp65536 acc raw_chunk_contract vo appender65536_facts(4) by blast
qed

text \<open>
  C4 fails on the code at a first sample that is out of order: the call returns
  \<open>ErrOutOfOrderSample\<close>, and the tags of the series, which were unset, are those of the
  rejected sample (lines 171-174 run before the checks).
\<close>

theorem rejected_first_sample_overwrites_tags:
  "Append raw_env appender0 (sample cpu cpu 0 [(''main'', 1, 2)]) =
     (Some ErrOutOfOrderSample, appender0\<lparr>a_s := series0\<lparr>periodType := cpu, sampleType := cpu\<rparr>\<rparr>) \<and>
   periodType (a_s appender0) = zeroValueType \<and> sampleType (a_s appender0) = zeroValueType \<and>
   zeroValueType \<noteq> cpu"
  by (simp add: model_defs raw_defs Let_def)

text \<open>
  C5 fails on the code: \<open>NewMemSeries\<close> leaves \<open>maxTime\<close> at 0, Go's zero value, and a
  first sample at time 0, or at a negative time, is rejected with \<open>ErrOutOfOrderSample\<close>.
\<close>

theorem first_sample_at_zero_rejected:
  "Appender raw_env (NewMemSeries raw_env [(''job'', ''a'')] 1) = Inr appender0 \<and>
   numSamples (a_s appender0) = 0 \<and> maxTime (a_s appender0) = 0 \<and>
   fst (Append raw_env appender0 (sample cpu cpu 0 [(''main'', 1, 2)])) = Some ErrOutOfOrderSample \<and>
   fst (Append raw_env appender0 (sample cpu cpu (- 5) [(''main'', 1, 2)])) =
     Some ErrOutOfOrderSample"
  using appender0_fresh by (simp add: model_defs raw_defs Let_def)

text \<open>
  C9. \<open>stats\<close> leaves the series as it was; the snapshot's \<open>samples\<close> is \<open>numSamples\<close>, and
  its two lists hold one entry (sample count, byte size) per chunk of every per-key
  column of \<open>flatValues\<close> and of \<open>cumulativeValues\<close>, entry by entry and column by column.
\<close>

theorem stats_snapshot:
  "snd (stats env s) = s \<and>
   samples (fst (stats env s)) = numSamples s \<and>
   Flat (fst (stats env s)) =
     concat (map (\<lambda>(k, chunks). map (chunkStat env) chunks) (flatValues s)) \<and>
   Cumulatives (fst (stats env s)) =
     concat (map (\<lambda>(k, chunks). map (chunkStat env) chunks) (cumulativeValues s)) \<and>
   length (Flat (fst (stats env s))) = sum_list (map (\<lambda>(k, chunks). length chunks) (flatValues s)) \<and>
   length (Cumulatives (fst (stats env s))) =
     sum_list (map (\<lambda>(k, chunks). length chunks) (cumulativeValues s))"
proof -
  have len: "length (concat (map (\<lambda>(k, chunks). map (chunkStat env) chunks) m)) =
             sum_list (map (\<lambda>(k, chunks). length chunks) m)" for m
    by (induction m) (auto simp: length_concat)
  show ?thesis
    by (simp add: stats_def Let_def chunkStats_concat len)
qed

end
